theory Spec2Isabelle
  imports Complex_Main "HOL-Library.AList"
begin

section \<open>JavaScript values\<close>

text \<open>
  The server keeps its data as JSON documents. A document is a JSON value; an object is
  the list of its properties in insertion order, read and written at the first entry of
  a key. A number is the rational it denotes: every finite double is one, and the
  handlers only test numbers for equality and for zero. A string is the list of its
  code units, of which the model has the first 256. JavaScript's \<^verbatim>\<open>undefined\<close>
  is \<open>None\<close> of an option type.
\<close>

datatype json =
    JNull
  | JBool bool
  | JNum rat
  | JStr string
  | JArr "json list"
  | JObj "(string \<times> json) list"

text \<open>What a rejected promise of a handler carries.\<close>

datatype js_error = TypeError | ProviderError

text \<open>\<^verbatim>\<open>!data\<close> is true for null, false, 0 and the empty string.\<close>

fun truthy :: "json \<Rightarrow> bool" where
  "truthy JNull = False"
| "truthy (JBool b) = b"
| "truthy (JNum n) = (n \<noteq> 0)"
| "truthy (JStr s) = (s \<noteq> [])"
| "truthy (JArr xs) = True"
| "truthy (JObj kvs) = True"

section \<open>The provider and the document store (part\_001, second program)\<close>

text \<open>
  The Cloudinary account as the handlers see it: the raw objects it holds by public id,
  the uploads that were started and have neither landed nor failed yet (oldest first),
  the mutating calls made so far, and the ids for which \<^verbatim>\<open>uploader.destroy\<close>
  rejects. A lookup fails only for an object the account does not hold.
\<close>

datatype call = Upload string json | Destroy json

record cloud =
  raw_objects :: "string \<rightharpoonup> json"
  in_flight :: "(string \<times> json) list"
  calls :: "call list"
  destroy_rejects :: "json \<Rightarrow> bool"

fun is_upload :: "call \<Rightarrow> bool" where
  "is_upload (Upload k v) = True"
| "is_upload (Destroy k) = False"

definition writes :: "cloud \<Rightarrow> nat" where
  "writes c = length (filter is_upload (calls c))"

text \<open>
  \<^verbatim>\<open>await upload_stream({public_id, folder: "bstore_data", resource_type: "raw",
  overwrite: true}, callback).end(buffer)\<close>. The text of the document is made when the
  function is called, and the upload of it to folder/public\_id is started. What is
  awaited is the stream that \<^verbatim>\<open>end\<close> returns, which is no promise: the function
  returns with the upload in flight, and what becomes of the upload is only logged by
  the callback.
\<close>

definition saveJsonToCloudinary :: "string \<Rightarrow> json \<Rightarrow> cloud \<Rightarrow> cloud" where
  "saveJsonToCloudinary publicId jsonData c =
     c\<lparr>in_flight := in_flight c @ [(''bstore_data'' @ ''/'' @ publicId, jsonData)],
       calls := calls c @ [Upload (''bstore_data'' @ ''/'' @ publicId) jsonData]\<rparr>"

text \<open>
  What the provider does with the uploads in flight, at a time of its own: the oldest
  one lands, overwriting the object of its id, or it fails and is gone. In \<open>settle\<close>
  all of them have landed, in the order in which they were started.
\<close>

definition land :: "cloud \<Rightarrow> cloud" where
  "land c =
     (case in_flight c of
        [] \<Rightarrow> c
      | kv # rest \<Rightarrow> c\<lparr>raw_objects := (raw_objects c)(fst kv \<mapsto> snd kv), in_flight := rest\<rparr>)"

definition lose :: "cloud \<Rightarrow> cloud" where
  "lose c = (case in_flight c of [] \<Rightarrow> c | kv # rest \<Rightarrow> c\<lparr>in_flight := rest\<rparr>)"

definition settle :: "cloud \<Rightarrow> cloud" where
  "settle c =
     c\<lparr>raw_objects := foldl (\<lambda>m kv. m(fst kv \<mapsto> snd kv)) (raw_objects c) (in_flight c),
       in_flight := []\<rparr>"

text \<open>
  \<^verbatim>\<open>api.resource("bstore_data/" + publicId)\<close> and the fetch of its URL: the object the
  account holds, null when the lookup throws.
\<close>

definition loadJsonFromCloudinary :: "string \<Rightarrow> cloud \<Rightarrow> json" where
  "loadJsonFromCloudinary publicId c =
     (case raw_objects c (''bstore_data/'' @ publicId) of
        None \<Rightarrow> JNull
      | Some j \<Rightarrow> j)"

definition ensureJsonExists :: "string \<Rightarrow> json \<Rightarrow> cloud \<Rightarrow> json \<times> cloud" where
  "ensureJsonExists publicId defaultValue c =
     (let data = loadJsonFromCloudinary publicId c in
      if \<not> truthy data
      then (defaultValue, saveJsonToCloudinary publicId defaultValue c)
      else (data, c))"

text \<open>An account with nothing in it, where no delete fails.\<close>

definition fresh :: cloud where
  "fresh =
     \<lparr>raw_objects = Map.empty, in_flight = [], calls = [], destroy_rejects = (\<lambda>k. False)\<rparr>"

section \<open>JavaScript helpers\<close>

text \<open>
  \<^verbatim>\<open>x.k\<close> for a value \<open>x\<close> that is not null: the first entry of an object, undefined
  on anything else (no number, string, boolean or array has one of the keys the handlers
  read). Reading a property of null throws; the handlers' models test for null where the
  source dereferences.
\<close>

fun js_get :: "json \<Rightarrow> string \<Rightarrow> json option" where
  "js_get (JObj kvs) k = map_of kvs k"
| "js_get x k = None"

text \<open>
  \<^verbatim>\<open>x.k = v\<close> on an object: the entry is replaced where it stands or added last. A
  property set to undefined is not written by \<^verbatim>\<open>JSON.stringify\<close>, which is how
  every object leaves the handler. The handlers assign only to a product they have found
  by its id, which is an object; on any other value the assignment would leave no trace
  in the JSON text.
\<close>

fun js_set :: "string \<Rightarrow> json option \<Rightarrow> json \<Rightarrow> json" where
  "js_set k (Some v) (JObj kvs) = JObj (AList.update k v kvs)"
| "js_set k None (JObj kvs) = JObj (AList.delete k kvs)"
| "js_set k v x = x"

text \<open>An object literal, as \<^verbatim>\<open>JSON.stringify\<close> writes it: undefined values are left out.\<close>

definition object_literal :: "(string \<times> json option) list \<Rightarrow> json" where
  "object_literal kvs = JObj (List.map_filter (\<lambda>(k, v). map_option (Pair k) v) kvs)"

text \<open>
  \<^verbatim>\<open>field || other\<close> for a field of the request body, which is undefined or any JSON
  value: \<open>other\<close> is taken when the field is undefined or falsy. In \<open>or_js\<close> the other
  operand may be undefined too; in \<open>or_value\<close> it is a value.
\<close>

definition or_js :: "json option \<Rightarrow> json option \<Rightarrow> json option" where
  "or_js field other =
     (case field of
        None \<Rightarrow> other
      | Some v \<Rightarrow> if truthy v then Some v else other)"

definition or_value :: "json option \<Rightarrow> json \<Rightarrow> json" where
  "or_value field other =
     (case field of
        None \<Rightarrow> other
      | Some v \<Rightarrow> if truthy v then v else other)"

text \<open>ToString of a string that may be undefined.\<close>

definition to_string :: "string option \<Rightarrow> string" where
  "to_string v = (case v of None \<Rightarrow> ''undefined'' | Some s \<Rightarrow> s)"

text \<open>\<^verbatim>\<open>Array.prototype.findIndex\<close> with a callback that may throw; \<open>None\<close> is -1.\<close>

fun findIndex :: "('a \<Rightarrow> js_error + bool) \<Rightarrow> 'a list \<Rightarrow> js_error + nat option" where
  "findIndex f [] = Inr None"
| "findIndex f (x # xs) =
     (case f x of
        Inl e \<Rightarrow> Inl e
      | Inr True \<Rightarrow> Inr (Some 0)
      | Inr False \<Rightarrow>
          (case findIndex f xs of
             Inl e \<Rightarrow> Inl e
           | Inr None \<Rightarrow> Inr None
           | Inr (Some i) \<Rightarrow> Inr (Some (Suc i))))"

text \<open>\<^verbatim>\<open>Array.prototype.map\<close> with a callback that may throw.\<close>

fun array_map :: "('a \<Rightarrow> js_error + 'b) \<Rightarrow> 'a list \<Rightarrow> js_error + 'b list" where
  "array_map f [] = Inr []"
| "array_map f (x # xs) =
     (case f x of
        Inl e \<Rightarrow> Inl e
      | Inr y \<Rightarrow> (case array_map f xs of Inl e \<Rightarrow> Inl e | Inr ys \<Rightarrow> Inr (y # ys)))"

text \<open>\<^verbatim>\<open>xs.splice(index, 1)\<close>, for what it leaves in \<open>xs\<close>.\<close>

definition splice1 :: "nat \<Rightarrow> 'a list \<Rightarrow> 'a list" where
  "splice1 index xs = take index xs @ drop (Suc index) xs"

text \<open>Number to string, for an integer below \<open>10\<^sup>2\<^sup>1\<close> in magnitude.\<close>

fun decimal :: "nat \<Rightarrow> string" where
  "decimal n =
     (if n < 10 then [''0123456789'' ! n]
      else decimal (n div 10) @ [''0123456789'' ! (n mod 10)])"

declare decimal.simps [simp del]

definition number_to_string :: "int \<Rightarrow> string" where
  "number_to_string n = (if n < 0 then CHR ''-'' # decimal (nat (- n)) else decimal (nat n))"

subsection \<open>parseInt\<close>

text \<open>
  The white space among the first 256 code units: tab, line feed, vertical tab, form
  feed, carriage return, space, no-break space.
\<close>

definition is_space :: "char \<Rightarrow> bool" where
  "is_space ch = ((of_char ch :: nat) \<in> {9, 10, 11, 12, 13, 32, 160})"

text \<open>The value of a digit in radix 36; 36 for a character that is no digit.\<close>

definition digit_value :: "char \<Rightarrow> nat" where
  "digit_value ch =
     (let n = (of_char ch :: nat) in
      if 48 \<le> n \<and> n \<le> 57 then n - 48
      else if 97 \<le> n \<and> n \<le> 122 then n - 87
      else if 65 \<le> n \<and> n \<le> 90 then n - 55
      else 36)"

fun bit_length :: "nat \<Rightarrow> nat" where
  "bit_length n = (if n = 0 then 0 else Suc (bit_length (n div 2)))"

declare bit_length.simps [simp del]

text \<open>
  The double nearest to a natural number (ties to the even significand); \<open>None\<close> when
  that is infinity. Below \<open>2\<^sup>5\<^sup>3\<close> every integer is a double. The digits of a
  number are read exactly; ECMAScript lets an implementation read the decimal digits
  after the twentieth as zeros, which this model does not do.
\<close>

definition to_double :: "nat \<Rightarrow> nat option" where
  "to_double n =
     (if n < 2 ^ 53 then Some n
      else
        let e = bit_length n - 53;
            q = n div 2 ^ e;
            r = n mod 2 ^ e;
            half = 2 ^ (e - 1);
            q' = (if half < r \<or> (r = half \<and> odd q) then q + 1 else q);
            m = q' * 2 ^ e
        in if 2 ^ 1024 \<le> m then None else Some m)"

text \<open>The number a string of digits denotes in radix \<open>R\<close>.\<close>

definition digits_value :: "nat \<Rightarrow> string \<Rightarrow> nat" where
  "digits_value R Z = foldl (\<lambda>a ch. a * R + digit_value ch) 0 Z"

text \<open>
  \<^verbatim>\<open>parseInt(string, radix)\<close>, the radix undefined (\<open>None\<close>) or a number. \<open>None\<close> as
  a result stands for NaN and for an infinity: neither is equal to a number of a JSON
  document.
\<close>

definition parseInt :: "string \<Rightarrow> nat option \<Rightarrow> int option" where
  "parseInt string radix =
     (let S = dropWhile is_space string;
          sign = (if S \<noteq> [] \<and> hd S = CHR ''-'' then - 1 else 1 :: int);
          S1 = (if S \<noteq> [] \<and> (hd S = CHR ''+'' \<or> hd S = CHR ''-'') then tl S else S);
          R0 = (case radix of None \<Rightarrow> 0 | Some r \<Rightarrow> r)
      in if R0 \<noteq> 0 \<and> (R0 < 2 \<or> 36 < R0) then None
         else
           let stripPrefix = (R0 = 0 \<or> R0 = 16);
               hex = (stripPrefix \<and> (take 2 S1 = ''0x'' \<or> take 2 S1 = ''0X''));
               S2 = (if hex then drop 2 S1 else S1);
               R = (if hex then 16 else if R0 = 0 then 10 else R0);
               Z = takeWhile (\<lambda>ch. digit_value ch < R) S2
           in if Z = [] then None
              else map_option (\<lambda>m. sign * int m) (to_double (digits_value R Z)))"

text \<open>\<^verbatim>\<open>p.id === n\<close> for the result \<open>n\<close> of parseInt: it throws on a null \<open>p\<close>.\<close>

definition id_is :: "int option \<Rightarrow> json \<Rightarrow> js_error + bool" where
  "id_is n p =
     (if p = JNull then Inl TypeError
      else Inr (case n of None \<Rightarrow> False | Some m \<Rightarrow> js_get p ''id'' = Some (JNum (of_int m))))"

text \<open>\<^verbatim>\<open>r.orderId === orderId\<close> for a path parameter.\<close>

definition orderId_is :: "string option \<Rightarrow> json \<Rightarrow> js_error + bool" where
  "orderId_is orderId r =
     (if r = JNull then Inl TypeError
      else Inr (js_get r ''orderId'' = map_option JStr orderId))"

subsection \<open>The public id of an asset (part\_000)\<close>

text \<open>
  \<^verbatim>\<open>s.replace(/\.[^/.]+$/, "")\<close>: the leftmost dot that is followed, up to the end of the
  string, by one or more characters other than a slash and a dot, is cut with what
  follows it.
\<close>

fun strip_extension :: "string \<Rightarrow> string" where
  "strip_extension [] = []"
| "strip_extension (ch # s) =
     (if ch = CHR ''.'' \<and> s \<noteq> [] \<and> list_all (\<lambda>x. x \<noteq> CHR ''/'' \<and> x \<noteq> CHR ''.'') s
      then []
      else ch # strip_extension s)"

section \<open>Requests and responses\<close>

text \<open>
  What a handler reads of a request: the path parameters; the fields of the body, which
  is an object that multer fills with the text fields of a multipart request and
  \<^verbatim>\<open>express.json()\<close> with the members of a JSON one, so that a field is undefined
  or any JSON value; the file multer stored as \<^verbatim>\<open>req.file\<close> (its URL as \<open>path\<close>,
  its public id as \<open>filename\<close>); and the clock as read while the request is handled
  (\<^verbatim>\<open>Date.now()\<close> and \<^verbatim>\<open>new Date().toISOString()\<close>).
\<close>

record upload_file =
  path :: string
  filename :: string

record request =
  params :: "string \<rightharpoonup> string"
  body :: "string \<rightharpoonup> json"
  req_file :: "upload_file option"
  date_now :: int
  date_iso :: string

text \<open>\<^verbatim>\<open>res.status(n).json(v)\<close>; \<^verbatim>\<open>res.json(v)\<close> answers 200.\<close>

datatype response = Response nat json

definition message :: "string \<Rightarrow> json" where
  "message m = JObj [(''message'', JStr m)]"

definition not_found :: "string \<Rightarrow> response" where
  "not_found m = Response 404 (JObj [(''error'', JStr m)])"

text \<open>
  \<^verbatim>\<open>cloudinary.uploader.destroy(publicId)\<close>: the call is made, and its promise rejects
  for the ids the account rejects.
\<close>

definition destroy :: "json \<Rightarrow> cloud \<Rightarrow> (js_error + unit) \<times> cloud" where
  "destroy publicId c =
     (if destroy_rejects c publicId then Inl ProviderError else Inr (),
      c\<lparr>calls := calls c @ [Destroy publicId]\<rparr>)"


section \<open>The handlers of the cloud program (part\_001, lines 221 to 351)\<close>

text \<open>
  A handler returns the response it sends, or the error its promise rejects with when a
  statement throws outside a \<^verbatim>\<open>try\<close>, and the account as it leaves it.
  \<^verbatim>\<open>JSON.parse\<close> is a parameter, applied to the value of the field (it converts
  its argument to a string itself): \<open>None\<close> where it throws.
\<close>

definition minimal_item :: "json \<Rightarrow> js_error + json" where
  "minimal_item item =
     (if item = JNull then Inl TypeError
      else Inr (object_literal
        [(''id'', js_get item ''id''),
         (''name'', js_get item ''name''),
         (''price'', js_get item ''price''),
         (''quantity'', js_get item ''quantity'')]))"

definition receipt_meta :: "request \<Rightarrow> json list \<Rightarrow> json" where
  "receipt_meta req minimalCartItems =
     JObj
       ([(''orderId'',
            or_value (body req ''orderId'') (JStr (''ORD'' @ number_to_string (date_now req)))),
         (''cname'', or_value (body req ''cname'') (JStr [])),
         (''note'', or_value (body req ''note'') (JStr [])),
         (''total'', or_value (body req ''total'') (JStr ''0.00'')),
         (''paymentMethod'', or_value (body req ''paymentMethod'') (JStr [])),
         (''uploadedAt'', or_value (body req ''timestamp'') (JStr (date_iso req))),
         (''cartItems'', JArr minimalCartItems)]
        @ (case req_file req of
             None \<Rightarrow> []
           | Some f \<Rightarrow> [(''receiptUrl'', JStr (path f)), (''cloudinaryId'', JStr (filename f))]))"

text \<open>
  The cart of the request: the parsed field, or the empty array when \<^verbatim>\<open>JSON.parse\<close>
  throws, each item cut down to id, name, price and quantity. \<^verbatim>\<open>cartItems.map\<close>
  throws when the parsed value is not an array.
\<close>

definition minimal_cart ::
  "(json option \<Rightarrow> json option) \<Rightarrow> request \<Rightarrow> js_error + json list" where
  "minimal_cart JSON_parse req =
     (let cartItems =
            (case JSON_parse (body req ''cartItems'') of
               None \<Rightarrow> JArr []
             | Some v \<Rightarrow> v)
      in case cartItems of
           JArr items \<Rightarrow> array_map minimal_item items
         | _ \<Rightarrow> Inl TypeError)"

definition post_upload ::
  "(json option \<Rightarrow> json option) \<Rightarrow> request \<Rightarrow> cloud \<Rightarrow> (js_error + response) \<times> cloud" where
  "post_upload JSON_parse req c =
     (case minimal_cart JSON_parse req of
        Inl e \<Rightarrow> (Inl e, c)
      | Inr minimalCartItems \<Rightarrow>
          (let receiptMeta = receipt_meta req minimalCartItems;
               ensured = ensureJsonExists ''receipts'' (JArr []) c
           in case fst ensured of
                JArr receipts \<Rightarrow>
                  (Inr (Response 200
                     (JObj [(''message'', JStr ''Receipt saved''), (''receipt'', receiptMeta)])),
                   saveJsonToCloudinary ''receipts'' (JArr (receiptMeta # receipts))
                     (snd ensured))
              | _ \<Rightarrow> (Inl TypeError, snd ensured)))"

definition get_receipts :: "cloud \<Rightarrow> (js_error + response) \<times> cloud" where
  "get_receipts c =
     (let ensured = ensureJsonExists ''receipts'' (JArr []) c
      in (Inr (Response 200 (fst ensured)), snd ensured))"

definition delete_receipt :: "request \<Rightarrow> cloud \<Rightarrow> (js_error + response) \<times> cloud" where
  "delete_receipt req c =
     (let ensured = ensureJsonExists ''receipts'' (JArr []) c
      in case fst ensured of
           JArr receipts \<Rightarrow>
             (case findIndex (orderId_is (params req ''orderId'')) receipts of
                Inl e \<Rightarrow> (Inl e, snd ensured)
              | Inr None \<Rightarrow> (Inr (not_found ''Receipt not found''), snd ensured)
              | Inr (Some index) \<Rightarrow>
                  (Inr (Response 200
                     (object_literal
                        [(''message'', Some (JStr ''Receipt deleted'')),
                         (''orderId'', map_option JStr (params req ''orderId''))])),
                   saveJsonToCloudinary ''receipts'' (JArr (splice1 index receipts))
                     (snd ensured)))
         | _ \<Rightarrow> (Inl TypeError, snd ensured))"

definition get_products :: "cloud \<Rightarrow> (js_error + response) \<times> cloud" where
  "get_products c =
     (let ensured = ensureJsonExists ''products'' (JArr []) c
      in (Inr (Response 200 (fst ensured)), snd ensured))"

definition post_product :: "request \<Rightarrow> cloud \<Rightarrow> (js_error + response) \<times> cloud" where
  "post_product req c =
     (case req_file req of
        None \<Rightarrow> (Inr (Response 400 (JObj [(''error'', JStr ''Image is required'')])), c)
      | Some f \<Rightarrow>
          (let ensured = ensureJsonExists ''products'' (JArr []) c;
               newProduct = object_literal
                 [(''id'', Some (JNum (of_int (date_now req)))),
                  (''name'', body req ''name''),
                  (''price'', body req ''price''),
                  (''description'', body req ''description''),
                  (''imageUrl'', Some (JStr (path f))),
                  (''cloudinaryId'', Some (JStr (filename f)))]
           in case fst ensured of
                JArr products \<Rightarrow>
                  (Inr (Response 200
                     (JObj [(''message'', JStr ''Product added''), (''product'', newProduct)])),
                   saveJsonToCloudinary ''products'' (JArr (products @ [newProduct]))
                     (snd ensured))
              | _ \<Rightarrow> (Inl TypeError, snd ensured)))"

text \<open>
  The body of the update handler once the product is found: the old image is destroyed
  and the new one recorded when a file came with the request, then each of name, price
  and description is set to the body's field or, when that is falsy, to itself.
\<close>

definition replace_image :: "upload_file \<Rightarrow> json \<Rightarrow> cloud \<Rightarrow> (js_error + json) \<times> cloud" where
  "replace_image f product c =
     (let destroyed =
            (case js_get product ''cloudinaryId'' of
               None \<Rightarrow> (Inr (), c)
             | Some old \<Rightarrow> if truthy old then destroy old c else (Inr (), c))
      in case fst destroyed of
           Inl e \<Rightarrow> (Inl e, snd destroyed)
         | Inr u \<Rightarrow>
             (Inr (js_set ''cloudinaryId'' (Some (JStr (filename f)))
                    (js_set ''imageUrl'' (Some (JStr (path f))) product)),
              snd destroyed))"

definition update_fields :: "request \<Rightarrow> json \<Rightarrow> json" where
  "update_fields req product =
     (let p1 = js_set ''name'' (or_js (body req ''name'') (js_get product ''name'')) product;
          p2 = js_set ''price'' (or_js (body req ''price'') (js_get p1 ''price'')) p1
      in js_set ''description''
           (or_js (body req ''description'') (js_get p2 ''description'')) p2)"

definition put_product :: "request \<Rightarrow> cloud \<Rightarrow> (js_error + response) \<times> cloud" where
  "put_product req c =
     (let ensured = ensureJsonExists ''products'' (JArr []) c
      in case fst ensured of
           JArr products \<Rightarrow>
             (case findIndex (id_is (parseInt (to_string (params req ''id'')) None)) products of
                Inl e \<Rightarrow> (Inl e, snd ensured)
              | Inr None \<Rightarrow> (Inr (not_found ''Product not found''), snd ensured)
              | Inr (Some index) \<Rightarrow>
                  (let imaged =
                         (case req_file req of
                            None \<Rightarrow> (Inr (products ! index), snd ensured)
                          | Some f \<Rightarrow> replace_image f (products ! index) (snd ensured))
                   in case fst imaged of
                        Inl e \<Rightarrow> (Inl e, snd imaged)
                      | Inr p \<Rightarrow>
                          (Inr (Response 200
                             (JObj [(''message'', JStr ''Product updated''),
                                    (''product'', update_fields req p)])),
                           saveJsonToCloudinary ''products''
                             (JArr (products[index := update_fields req p])) (snd imaged))))
         | _ \<Rightarrow> (Inl TypeError, snd ensured))"

definition delete_product :: "request \<Rightarrow> cloud \<Rightarrow> (js_error + response) \<times> cloud" where
  "delete_product req c =
     (let ensured = ensureJsonExists ''products'' (JArr []) c
      in case fst ensured of
           JArr products \<Rightarrow>
             (case findIndex (id_is (parseInt (to_string (params req ''id'')) None)) products of
                Inl e \<Rightarrow> (Inl e, snd ensured)
              | Inr None \<Rightarrow> (Inr (not_found ''Product not found''), snd ensured)
              | Inr (Some index) \<Rightarrow>
                  (let destroyed =
                         (case js_get (products ! index) ''cloudinaryId'' of
                            None \<Rightarrow> (Inr (), snd ensured)
                          | Some cloudinaryId \<Rightarrow>
                              if truthy cloudinaryId then destroy cloudinaryId (snd ensured)
                              else (Inr (), snd ensured))
                   in case fst destroyed of
                        Inl e \<Rightarrow> (Inl e, snd destroyed)
                      | Inr u \<Rightarrow>
                          (Inr (Response 200 (message ''Product deleted'')),
                           saveJsonToCloudinary ''products'' (JArr (splice1 index products))
                             (snd destroyed))))
         | _ \<Rightarrow> (Inl TypeError, snd ensured))"

section \<open>The delete handler of the disk program (part\_000, lines 228 to 261)\<close>

text \<open>
  This program keeps the products in the file products.json and only the images at the
  provider. The file is empty (\<open>None\<close>) or holds the text of a JSON value. The handler
  catches what \<^verbatim>\<open>destroy\<close> throws.
\<close>

record disk =
  products_json :: "json option"
  destroy_calls :: "json list"
  destroy_throws :: "json \<Rightarrow> bool"

definition public_id :: "string \<Rightarrow> string" where
  "public_id originalId =
     (let publicId = strip_extension originalId
      in if CHR ''/'' \<in> set publicId then publicId else ''bstore_products/'' @ publicId)"

definition destroy_disk :: "json \<Rightarrow> disk \<Rightarrow> (js_error + unit) \<times> disk" where
  "destroy_disk publicId d =
     (if destroy_throws d publicId then Inl ProviderError else Inr (),
      d\<lparr>destroy_calls := destroy_calls d @ [publicId]\<rparr>)"

definition delete_product_disk :: "request \<Rightarrow> disk \<Rightarrow> (js_error + response) \<times> disk" where
  "delete_product_disk req d =
     (let id = parseInt (to_string (params req ''id'')) (Some 10);
          parsed = (case products_json d of None \<Rightarrow> JArr [] | Some v \<Rightarrow> v)
      in case parsed of
           JArr products \<Rightarrow>
             (case findIndex (id_is id) products of
                Inl e \<Rightarrow> (Inl e, d)
              | Inr None \<Rightarrow> (Inr (not_found ''Product not found''), d)
              | Inr (Some index) \<Rightarrow>
                  (let originalId =
                         (case js_get (products ! index) ''cloudinaryId'' of
                            None \<Rightarrow> JStr []
                          | Some v \<Rightarrow> if truthy v then v else JStr [])
                   in case originalId of
                        JStr s \<Rightarrow>
                          (let destroyed = destroy_disk (JStr (public_id s)) d;
                               d1 = (case fst destroyed of
                                       Inl err \<Rightarrow> snd destroyed
                                     | Inr result \<Rightarrow> snd destroyed)
                           in (Inr (Response 200 (message ''Product deleted'')),
                               d1\<lparr>products_json := Some (JArr (splice1 index products))\<rparr>))
                      | _ \<Rightarrow> (Inl TypeError, d)))
         | _ \<Rightarrow> (Inl TypeError, d))"

section \<open>The documents of an account\<close>

text \<open>
  The documents of a name: the one the account holds, and those in flight to it.
\<close>

definition documents :: "string \<Rightarrow> cloud \<Rightarrow> json list" where
  "documents n c =
     (case raw_objects c (''bstore_data/'' @ n) of None \<Rightarrow> [] | Some v \<Rightarrow> [v])
     @ map snd (filter (\<lambda>kv. fst kv = ''bstore_data/'' @ n) (in_flight c))"

fun is_array :: "json \<Rightarrow> bool" where
  "is_array (JArr xs) = True"
| "is_array v = False"

text \<open>A name is a collection when each of its documents is an array.\<close>

definition collection :: "string \<Rightarrow> cloud \<Rightarrow> bool" where
  "collection n c = list_all is_array (documents n c)"

text \<open>
  The id of an image as \<^verbatim>\<open>imageStorage\<close> makes multer store it: the folder
  bstore\_products and the clock's milliseconds as \<^verbatim>\<open>public_id\<close>, which the provider
  joins with a slash and returns, without extension, as the \<^verbatim>\<open>filename\<close> of
  \<^verbatim>\<open>req.file\<close>.
\<close>

definition image_id :: "int \<Rightarrow> string" where
  "image_id now = ''bstore_products/'' @ number_to_string now"

text \<open>The shape of such an id: it has a slash and no dot.\<close>

definition stored_id :: "string \<Rightarrow> bool" where
  "stored_id s = (CHR ''/'' \<in> set s \<and> CHR ''.'' \<notin> set s)"

definition from_multer :: "request \<Rightarrow> bool" where
  "from_multer req = (case req_file req of None \<Rightarrow> True | Some f \<Rightarrow> stored_id (filename f))"

text \<open>A product whose cloudinaryId is such an id, and a document of such products.\<close>

definition has_stored_id :: "json \<Rightarrow> bool" where
  "has_stored_id p =
     (case js_get p ''cloudinaryId'' of Some (JStr s) \<Rightarrow> stored_id s | _ \<Rightarrow> False)"

fun products_document :: "json \<Rightarrow> bool" where
  "products_document (JArr ps) = list_all has_stored_id ps"
| "products_document v = False"

definition products_stored :: "cloud \<Rightarrow> bool" where
  "products_stored c = list_all products_document (documents ''products'' c)"

section \<open>Concrete inputs\<close>

text \<open>
  A request with neither parameters nor fields, and a stand-in for \<^verbatim>\<open>JSON.parse\<close>
  that reads three texts and one number and throws on every other argument.
\<close>

definition request0 :: request where
  "request0 =
     \<lparr>params = Map.empty, body = Map.empty, req_file = None,
      date_now = 1700000000000, date_iso = ''2023-11-14T22:13:20.000Z''\<rparr>"

definition example_parse :: "json option \<Rightarrow> json option" where
  "example_parse v =
     (if v = Some (JStr ''[]'') then Some (JArr [])
      else if v = Some (JStr ''[null]'') then Some (JArr [JNull])
      else if v = Some (JStr ''5'') \<or> v = Some (JNum 5) then Some (JNum 5)
      else None)"

definition order :: "string \<Rightarrow> request" where
  "order A = request0\<lparr>body := [''orderId'' \<mapsto> JStr A]\<rparr>"

definition for_id :: "string \<Rightarrow> request" where
  "for_id i = request0\<lparr>params := [''id'' \<mapsto> i, ''orderId'' \<mapsto> i]\<rparr>"

definition tea :: json where
  "tea =
     JObj [(''id'', JNum 123),
           (''name'', JStr ''Tea''),
           (''price'', JStr ''10''),
           (''description'', JStr ''green''),
           (''imageUrl'', JStr ''https://res.cloudinary.com/bstore_products/1699999999999.jpg''),
           (''cloudinaryId'', JStr ''bstore_products/1699999999999'')]"

definition old_receipt :: json where
  "old_receipt = JObj [(''orderId'', JStr ''Z''), (''cartItems'', JArr [])]"

text \<open>An account that holds one product and one receipt.\<close>

definition stocked :: cloud where
  "stocked =
     \<lparr>raw_objects =
        [''bstore_data/products'' \<mapsto> JArr [tea], ''bstore_data/receipts'' \<mapsto> JArr [old_receipt]],
      in_flight = [],
      calls = [],
      destroy_rejects = (\<lambda>k. False)\<rparr>"

definition coffee :: json where
  "coffee =
     JObj [(''id'', JNum 456),
           (''name'', JStr ''Coffee''),
           (''price'', JStr ''15''),
           (''description'', JStr ''dark''),
           (''imageUrl'', JStr ''https://res.cloudinary.com/bstore_products/1700000000001.jpg''),
           (''cloudinaryId'', JStr ''bstore_products/1700000000001'')]"

text \<open>A second product with the id of \<open>tea\<close>.\<close>

definition iced_tea :: json where
  "iced_tea =
     JObj [(''id'', JNum 123),
           (''name'', JStr ''Iced tea''),
           (''cloudinaryId'', JStr ''bstore_products/1700000000002'')]"

text \<open>
  Accounts that hold these products; in the second and the third, the provider fails
  every delete.
\<close>

definition shelf :: cloud where
  "shelf =
     \<lparr>raw_objects = [''bstore_data/products'' \<mapsto> JArr [coffee, tea, iced_tea]],
      in_flight = [],
      calls = [],
      destroy_rejects = (\<lambda>k. False)\<rparr>"

definition failing :: cloud where
  "failing = stocked\<lparr>destroy_rejects := (\<lambda>k. True)\<rparr>"

definition failing_shelf :: cloud where
  "failing_shelf = shelf\<lparr>destroy_rejects := (\<lambda>k. True)\<rparr>"

text \<open>The disk program with \<open>tea\<close> in its file and a provider that fails every delete.\<close>

definition failing_disk :: disk where
  "failing_disk =
     \<lparr>products_json = Some (JArr [tea]), destroy_calls = [], destroy_throws = (\<lambda>k. True)\<rparr>"




section \<open>The document store\<close>

lemma load_save:
  "loadJsonFromCloudinary n (saveJsonToCloudinary m v c) = loadJsonFromCloudinary n c"
  by (simp add: loadJsonFromCloudinary_def saveJsonToCloudinary_def)

lemma writes_save:
  "writes (saveJsonToCloudinary n v c) = Suc (writes c)"
  by (simp add: writes_def saveJsonToCloudinary_def)

lemma writes_settle: "writes (settle c) = writes c"
  by (simp add: writes_def settle_def)

lemma settle_quiet: "in_flight c = [] \<Longrightarrow> settle c = c"
  by (cases c) (simp add: settle_def)

lemma load_settle_save:
  "loadJsonFromCloudinary n (settle (saveJsonToCloudinary n v c)) = v"
  by (simp add: loadJsonFromCloudinary_def saveJsonToCloudinary_def settle_def)

lemma ensure_truthy_stored:
  "truthy (loadJsonFromCloudinary n c) \<Longrightarrow>
   ensureJsonExists n d c = (loadJsonFromCloudinary n c, c)"
  by (simp add: ensureJsonExists_def)

lemma ensure_falsy_stored:
  "\<not> truthy (loadJsonFromCloudinary n c) \<Longrightarrow>
   ensureJsonExists n d c = (d, saveJsonToCloudinary n d c)"
  by (simp add: ensureJsonExists_def)

lemma ensure_fst:
  "fst (ensureJsonExists n d c)
   = (if truthy (loadJsonFromCloudinary n c) then loadJsonFromCloudinary n c else d)"
  by (simp add: ensureJsonExists_def Let_def)

lemma ensure_snd:
  "snd (ensureJsonExists n d c)
   = (if truthy (loadJsonFromCloudinary n c) then c else saveJsonToCloudinary n d c)"
  by (simp add: ensureJsonExists_def Let_def)

lemma ensure_settled_array:
  "ensureJsonExists n d (settle (saveJsonToCloudinary n (JArr xs) c))
   = (JArr xs, settle (saveJsonToCloudinary n (JArr xs) c))"
  by (simp add: ensure_truthy_stored load_settle_save)

lemma fresh_ensure:
  "ensureJsonExists n d fresh = (d, saveJsonToCloudinary n d fresh)"
  by (simp add: ensure_falsy_stored loadJsonFromCloudinary_def fresh_def)

text \<open>
  Two calls of \<open>ensure\<close> on an account with nothing in flight, the second made when
  the upload of the first has landed: the same value twice, and at most one write
  exactly when the default or the stored document is truthy.
\<close>

lemma ensure_twice_when_the_upload_has_landed:
  assumes quiet: "in_flight c = []"
  shows "fst (ensureJsonExists n d c)
           = fst (ensureJsonExists n d (settle (snd (ensureJsonExists n d c))))
         \<and> ((writes (snd (ensureJsonExists n d (settle (snd (ensureJsonExists n d c)))))
               \<le> Suc (writes c))
             = (truthy d \<or> truthy (loadJsonFromCloudinary n c)))"
proof (cases "truthy (loadJsonFromCloudinary n c)")
  case True
  then show ?thesis by (simp add: ensure_truthy_stored settle_quiet [OF quiet])
next
  case stored: False
  have first: "ensureJsonExists n d c = (d, saveJsonToCloudinary n d c)"
    using stored by (rule ensure_falsy_stored)
  show ?thesis
  proof (cases "truthy d")
    case True
    then show ?thesis
      using stored
      by (simp add: first ensure_truthy_stored load_settle_save writes_save writes_settle)
  next
    case False
    then show ?thesis
      using stored
      by (simp add: first ensure_falsy_stored load_settle_save writes_save writes_settle)
  qed
qed

text \<open>
  C7. The code does not do what the claim says. On an account without the products
  document, two calls of \<open>ensure\<close> with the default every handler passes, the empty
  array, one right after the other, both return the default and make two writes: the
  first call returns with its upload in flight, so the second finds no document either.
  Had the first upload landed before the second call, there would be one write.
\<close>

theorem C7_two_calls_two_uploads:
  "fst (ensureJsonExists ''products'' (JArr []) fresh) = JArr []
   \<and> fst (ensureJsonExists ''products'' (JArr [])
            (snd (ensureJsonExists ''products'' (JArr []) fresh))) = JArr []
   \<and> writes fresh = 0
   \<and> writes (snd (ensureJsonExists ''products'' (JArr [])
               (snd (ensureJsonExists ''products'' (JArr []) fresh)))) = 2
   \<and> writes (snd (ensureJsonExists ''products'' (JArr [])
               (settle (snd (ensureJsonExists ''products'' (JArr []) fresh))))) = 1"
proof -
  have missing: "loadJsonFromCloudinary ''products'' fresh = JNull"
    by (simp add: loadJsonFromCloudinary_def fresh_def)
  have none: "writes fresh = 0"
    by (simp add: writes_def fresh_def)
  show ?thesis
    by (simp add: ensure_fst ensure_snd load_save load_settle_save missing none
        writes_save writes_settle)
qed

text \<open>
  C8. The code does not do what the claim says. On an account without the products
  document, \<open>load\<close> right after \<open>save(name, ensure(name, default))\<close> returns null and
  not the empty array that was saved: \<open>save\<close> returns with its upload in flight. Once
  the upload has landed, \<open>load\<close> returns the value saved (lemma \<open>load_settle_save\<close>,
  for every name and value).
\<close>

theorem C8_load_right_after_save:
  "fst (ensureJsonExists ''products'' (JArr []) fresh) = JArr []
   \<and> loadJsonFromCloudinary ''products''
        (saveJsonToCloudinary ''products'' (fst (ensureJsonExists ''products'' (JArr []) fresh))
           (snd (ensureJsonExists ''products'' (JArr []) fresh)))
       = JNull
   \<and> loadJsonFromCloudinary ''products''
        (settle
          (saveJsonToCloudinary ''products'' (fst (ensureJsonExists ''products'' (JArr []) fresh))
             (snd (ensureJsonExists ''products'' (JArr []) fresh))))
       = JArr []"
proof -
  have missing: "loadJsonFromCloudinary ''products'' fresh = JNull"
    by (simp add: loadJsonFromCloudinary_def fresh_def)
  show ?thesis
    by (simp add: ensure_fst ensure_snd load_save load_settle_save missing)
qed

section \<open>Receipts: creation and order\<close>

lemma post_upload_saves:
  assumes cart: "minimal_cart P req = Inr m"
      and coll: "fst (ensureJsonExists ''receipts'' (JArr []) c) = JArr old"
  shows "post_upload P req c =
           (Inr (Response 200
              (JObj [(''message'', JStr ''Receipt saved''), (''receipt'', receipt_meta req m)])),
            saveJsonToCloudinary ''receipts'' (JArr (receipt_meta req m # old))
              (snd (ensureJsonExists ''receipts'' (JArr []) c)))"
  by (simp add: post_upload_def cart coll Let_def)

lemma minimal_cart_malformed:
  assumes "body req ''cartItems'' = Some (JStr s)" and "P (Some (JStr s)) = None"
  shows "minimal_cart P req = Inr []"
  using assms by (simp add: minimal_cart_def)

lemma receipt_meta_cartItems:
  "js_get (receipt_meta req m) ''cartItems'' = Some (JArr m)"
  by (simp add: receipt_meta_def)

lemma receipt_meta_orderId:
  "body req ''orderId'' = Some (JStr A) \<Longrightarrow> A \<noteq> [] \<Longrightarrow>
   js_get (receipt_meta req m) ''orderId'' = Some (JStr A)"
  by (simp add: receipt_meta_def or_value_def)

text \<open>
  C3. A POST /upload whose cartItems field is a string that JSON.parse rejects is
  answered with success, and the receipt in the document the handler uploads, at the
  head of the collection once the upload has landed, has the empty sequence as its
  cartItems. The receipts document is missing or holds an array, as every document the
  handlers write does.
\<close>

theorem C3_malformed_cart_is_stored_empty:
  assumes field: "body req ''cartItems'' = Some (JStr s)"
      and malformed: "JSON_parse (Some (JStr s)) = None"
      and coll: "fst (ensureJsonExists ''receipts'' (JArr []) c) = JArr old"
  shows "fst (post_upload JSON_parse req c)
           = Inr (Response 200
               (JObj [(''message'', JStr ''Receipt saved''),
                      (''receipt'', receipt_meta req [])]))
         \<and> last (calls (snd (post_upload JSON_parse req c)))
             = Upload ''bstore_data/receipts'' (JArr (receipt_meta req [] # old))
         \<and> loadJsonFromCloudinary ''receipts'' (settle (snd (post_upload JSON_parse req c)))
             = JArr (receipt_meta req [] # old)
         \<and> js_get (receipt_meta req []) ''cartItems'' = Some (JArr [])"
proof -
  have cart: "minimal_cart JSON_parse req = Inr []"
    using field malformed by (rule minimal_cart_malformed)
  show ?thesis
    by (simp add: post_upload_saves [OF cart coll] load_settle_save receipt_meta_cartItems)
       (simp add: saveJsonToCloudinary_def)
qed

theorem C3_malformed_cart_witness:
  "body (request0\<lparr>body := [''cartItems'' \<mapsto> JStr ''oops'']\<rparr>) ''cartItems''
     = Some (JStr ''oops'')
   \<and> example_parse (Some (JStr ''oops'')) = None
   \<and> fst (ensureJsonExists ''receipts'' (JArr []) fresh) = JArr []
   \<and> fst (post_upload example_parse
             (request0\<lparr>body := [''cartItems'' \<mapsto> JStr ''oops'']\<rparr>) fresh)
       = Inr (Response 200
           (JObj [(''message'', JStr ''Receipt saved''),
                  (''receipt'',
                   JObj [(''orderId'', JStr ''ORD1700000000000''),
                         (''cname'', JStr []),
                         (''note'', JStr []),
                         (''total'', JStr ''0.00''),
                         (''paymentMethod'', JStr []),
                         (''uploadedAt'', JStr ''2023-11-14T22:13:20.000Z''),
                         (''cartItems'', JArr [])])]))
   \<and> loadJsonFromCloudinary ''receipts''
        (settle (snd (post_upload example_parse
                        (request0\<lparr>body := [''cartItems'' \<mapsto> JStr ''oops'']\<rparr>) fresh)))
       = JArr [JObj [(''orderId'', JStr ''ORD1700000000000''),
                     (''cname'', JStr []),
                     (''note'', JStr []),
                     (''total'', JStr ''0.00''),
                     (''paymentMethod'', JStr []),
                     (''uploadedAt'', JStr ''2023-11-14T22:13:20.000Z''),
                     (''cartItems'', JArr [])]]"
proof -
  let ?r = "request0\<lparr>body := [''cartItems'' \<mapsto> JStr ''oops'']\<rparr>"
  have h1: "body ?r ''cartItems'' = Some (JStr ''oops'')" by simp
  have h2: "example_parse (Some (JStr ''oops'')) = None" by (simp add: example_parse_def)
  have h3: "fst (ensureJsonExists ''receipts'' (JArr []) fresh) = JArr []"
    by (simp add: ensure_fst loadJsonFromCloudinary_def fresh_def)
  have meta: "receipt_meta ?r []
      = JObj [(''orderId'', JStr ''ORD1700000000000''),
              (''cname'', JStr []),
              (''note'', JStr []),
              (''total'', JStr ''0.00''),
              (''paymentMethod'', JStr []),
              (''uploadedAt'', JStr ''2023-11-14T22:13:20.000Z''),
              (''cartItems'', JArr [])]"
    by (simp add: receipt_meta_def request0_def or_value_def number_to_string_def decimal.simps)
  note claim = C3_malformed_cart_is_stored_empty
                 [where JSON_parse = example_parse and s = "''oops''", OF h1 h2 h3]
  have answer: "fst (post_upload example_parse ?r fresh)
          = Inr (Response 200
              (JObj [(''message'', JStr ''Receipt saved''), (''receipt'', receipt_meta ?r [])]))"
    using claim by (rule conjunct1)
  have stored: "loadJsonFromCloudinary ''receipts'' (settle (snd (post_upload example_parse ?r fresh)))
          = JArr [receipt_meta ?r []]"
    using claim by simp
  show ?thesis
    using h1 h2 h3 answer stored by (simp only: meta)
qed

text \<open>
  Three creations, each made when the upload of the one before has landed, and the
  list made when the last upload has landed: the three records newest first, before the
  records that were there.
\<close>

lemma receipts_newest_first_when_uploads_land:
  assumes coll: "fst (ensureJsonExists ''receipts'' (JArr []) c) = JArr old"
      and a: "minimal_cart P ra = Inr ma"
      and b: "minimal_cart P rb = Inr mb"
      and c: "minimal_cart P rc = Inr mc"
  shows "fst (get_receipts
            (settle (snd (post_upload P rc
              (settle (snd (post_upload P rb
                (settle (snd (post_upload P ra c))))))))))
           = Inr (Response 200
               (JArr (receipt_meta rc mc # receipt_meta rb mb # receipt_meta ra ma # old)))"
proof -
  let ?e = "snd (ensureJsonExists ''receipts'' (JArr []) c)"
  let ?c1 = "settle (saveJsonToCloudinary ''receipts'' (JArr (receipt_meta ra ma # old)) ?e)"
  let ?c2 = "settle (saveJsonToCloudinary ''receipts''
               (JArr (receipt_meta rb mb # receipt_meta ra ma # old)) ?c1)"
  let ?c3 = "settle (saveJsonToCloudinary ''receipts''
               (JArr (receipt_meta rc mc # receipt_meta rb mb # receipt_meta ra ma # old)) ?c2)"
  have s1: "settle (snd (post_upload P ra c)) = ?c1"
    by (simp add: post_upload_saves [OF a coll])
  have e1: "fst (ensureJsonExists ''receipts'' (JArr []) ?c1)
              = JArr (receipt_meta ra ma # old)"
    by (simp add: ensure_settled_array)
  have s2: "settle (snd (post_upload P rb ?c1)) = ?c2"
    by (simp add: post_upload_saves [OF b e1] ensure_settled_array)
  have e2: "fst (ensureJsonExists ''receipts'' (JArr []) ?c2)
              = JArr (receipt_meta rb mb # receipt_meta ra ma # old)"
    by (simp add: ensure_settled_array)
  have s3: "settle (snd (post_upload P rc ?c2)) = ?c3"
    by (simp add: post_upload_saves [OF c e2] ensure_settled_array)
  have listed: "fst (get_receipts ?c3)
      = Inr (Response 200
          (JArr (receipt_meta rc mc # receipt_meta rb mb # receipt_meta ra ma # old)))"
    by (simp add: get_receipts_def ensure_settled_array)
  show ?thesis
    using listed by (simp only: s1 s2 s3)
qed

lemma stocked_receipts:
  "ensureJsonExists ''receipts'' (JArr []) stocked = (JArr [old_receipt], stocked)"
  by (simp add: ensure_truthy_stored loadJsonFromCloudinary_def stocked_def)

lemma order_cart: "minimal_cart example_parse (order A) = Inr []"
  by (simp add: minimal_cart_def order_def request0_def example_parse_def)

text \<open>
  C4. The code does not do what the claim says. With one receipt stored, three
  creations with the order ids A, B and C, each handled when the one before has been
  answered, each load the stored document and each upload it with their own record in
  front: the list made right after returns the old receipt only, and when the three
  uploads have landed the collection holds C and the old receipt, A and B being lost.
\<close>

theorem C4_creations_overwrite_each_other:
  "fst (get_receipts
     (snd (post_upload example_parse (order ''C'')
       (snd (post_upload example_parse (order ''B'')
         (snd (post_upload example_parse (order ''A'') stocked)))))))
     = Inr (Response 200 (JArr [old_receipt]))
   \<and> loadJsonFromCloudinary ''receipts''
       (settle
         (snd (post_upload example_parse (order ''C'')
           (snd (post_upload example_parse (order ''B'')
             (snd (post_upload example_parse (order ''A'') stocked)))))))
     = JArr [receipt_meta (order ''C'') [], old_receipt]
   \<and> js_get (receipt_meta (order ''C'') []) ''orderId'' = Some (JStr ''C'')"
proof -
  let ?a = "saveJsonToCloudinary ''receipts'' (JArr [receipt_meta (order ''A'') [], old_receipt])
              stocked"
  let ?b = "saveJsonToCloudinary ''receipts'' (JArr [receipt_meta (order ''B'') [], old_receipt])
              ?a"
  let ?c = "saveJsonToCloudinary ''receipts'' (JArr [receipt_meta (order ''C'') [], old_receipt])
              ?b"
  have stored: "loadJsonFromCloudinary ''receipts'' stocked = JArr [old_receipt]"
    by (simp add: loadJsonFromCloudinary_def stocked_def)
  have e0: "ensureJsonExists ''receipts'' (JArr []) stocked = (JArr [old_receipt], stocked)"
    by (rule stocked_receipts)
  have ea: "ensureJsonExists ''receipts'' (JArr []) ?a = (JArr [old_receipt], ?a)"
    by (simp add: ensure_truthy_stored load_save stored)
  have eb: "ensureJsonExists ''receipts'' (JArr []) ?b = (JArr [old_receipt], ?b)"
    by (simp add: ensure_truthy_stored load_save stored)
  have ec: "ensureJsonExists ''receipts'' (JArr []) ?c = (JArr [old_receipt], ?c)"
    by (simp add: ensure_truthy_stored load_save stored)
  have a: "snd (post_upload example_parse (order ''A'') stocked) = ?a"
    using post_upload_saves
            [where P = example_parse and req = "order ''A''" and m = "[]" and c = "stocked"
               and old = "[old_receipt]", OF order_cart]
    by (simp add: e0)
  have b: "snd (post_upload example_parse (order ''B'') ?a) = ?b"
    using post_upload_saves
            [where P = example_parse and req = "order ''B''" and m = "[]" and c = "?a"
               and old = "[old_receipt]", OF order_cart]
    by (simp add: ea)
  have c: "snd (post_upload example_parse (order ''C'') ?b) = ?c"
    using post_upload_saves
            [where P = example_parse and req = "order ''C''" and m = "[]" and c = "?b"
               and old = "[old_receipt]", OF order_cart]
    by (simp add: eb)
  have listed: "fst (get_receipts ?c) = Inr (Response 200 (JArr [old_receipt]))"
    by (simp add: get_receipts_def ec)
  have landed: "loadJsonFromCloudinary ''receipts'' (settle ?c)
                  = JArr [receipt_meta (order ''C'') [], old_receipt]"
    by (rule load_settle_save)
  have id: "js_get (receipt_meta (order ''C'') []) ''orderId'' = Some (JStr ''C'')"
    by (simp add: receipt_meta_orderId order_def)
  show ?thesis
    using listed landed id by (simp only: a b c)
qed

section \<open>Products: finding the target\<close>

lemma findIndex_None_iff:
  "findIndex f xs = Inr None \<longleftrightarrow> (\<forall>x\<in>set xs. f x = Inr False)"
  by (induction xs) (auto split: sum.splits bool.splits option.splits)

lemma findIndex_Some:
  "findIndex f xs = Inr (Some i) \<Longrightarrow>
   i < length xs \<and> f (xs ! i) = Inr True \<and> (\<forall>j<i. f (xs ! j) = Inr False)"
proof (induction xs arbitrary: i)
  case Nil
  then show ?case by simp
next
  case (Cons x xs)
  show ?case
  proof (cases "f x")
    case (Inl e)
    with Cons.prems show ?thesis by simp
  next
    case (Inr hit)
    show ?thesis
    proof (cases hit)
      case True
      with Inr Cons.prems show ?thesis by simp
    next
      case False
      with Inr Cons.prems obtain k where k: "findIndex f xs = Inr (Some k)" "i = Suc k"
        by (auto split: sum.splits option.splits)
      from Cons.IH [OF k(1)] Inr False k(2) show ?thesis
        by (auto simp: nth_Cons split: nat.splits)
    qed
  qed
qed

lemma id_is_True:
  "id_is n p = Inr True \<Longrightarrow> \<exists>kvs m. p = JObj kvs \<and> n = Some m \<and> map_of kvs ''id'' = Some (JNum (of_int m))"
  by (cases p) (auto simp: id_is_def split: if_splits option.splits)

lemma put_product_not_found:
  assumes "fst (ensureJsonExists ''products'' (JArr []) c) = JArr ps"
      and "\<forall>p\<in>set ps. id_is (parseInt (to_string (params req ''id'')) None) p = Inr False"
  shows "put_product req c =
           (Inr (not_found ''Product not found''),
            snd (ensureJsonExists ''products'' (JArr []) c))"
proof -
  have "findIndex (id_is (parseInt (to_string (params req ''id'')) None)) ps = Inr None"
    using assms(2) by (simp add: findIndex_None_iff)
  then show ?thesis
    by (simp add: put_product_def assms(1) Let_def)
qed

lemma delete_product_not_found:
  assumes "fst (ensureJsonExists ''products'' (JArr []) c) = JArr ps"
      and "\<forall>p\<in>set ps. id_is (parseInt (to_string (params req ''id'')) None) p = Inr False"
  shows "delete_product req c =
           (Inr (not_found ''Product not found''),
            snd (ensureJsonExists ''products'' (JArr []) c))"
proof -
  have "findIndex (id_is (parseInt (to_string (params req ''id'')) None)) ps = Inr None"
    using assms(2) by (simp add: findIndex_None_iff)
  then show ?thesis
    by (simp add: delete_product_def assms(1) Let_def)
qed

lemma delete_receipt_not_found:
  assumes "fst (ensureJsonExists ''receipts'' (JArr []) c) = JArr rs"
      and "\<forall>r\<in>set rs. orderId_is (params req ''orderId'') r = Inr False"
  shows "delete_receipt req c =
           (Inr (not_found ''Receipt not found''),
            snd (ensureJsonExists ''receipts'' (JArr []) c))"
proof -
  have "findIndex (orderId_is (params req ''orderId'')) rs = Inr None"
    using assms(2) by (simp add: findIndex_None_iff)
  then show ?thesis
    by (simp add: delete_receipt_def assms(1) Let_def)
qed

lemma parseInt_999: "parseInt ''999'' None = Some 999"
  by (simp add: parseInt_def is_space_def digit_value_def digits_value_def to_double_def Let_def)

lemma parseInt_123: "parseInt ''123'' None = Some 123"
  by (simp add: parseInt_def is_space_def digit_value_def digits_value_def to_double_def Let_def)

section \<open>Unknown ids\<close>

text \<open>
  C5, as the claim states it, fails: on an account that has no products document yet,
  DELETE /products/1 answers not found, and \<open>ensure\<close> has started the upload of the
  empty collection on the way; when it has landed the account holds the document.
\<close>

theorem C5_unknown_id_on_fresh_account_counterexample:
  "fst (delete_product (for_id ''1'') fresh) = Inr (not_found ''Product not found'')
   \<and> raw_objects fresh ''bstore_data/products'' = None
   \<and> in_flight (snd (delete_product (for_id ''1'') fresh))
       = [(''bstore_data/products'', JArr [])]
   \<and> raw_objects (settle (snd (delete_product (for_id ''1'') fresh))) ''bstore_data/products''
       = Some (JArr [])
   \<and> writes fresh = 0
   \<and> writes (snd (delete_product (for_id ''1'') fresh)) = 1"
proof -
  have coll: "fst (ensureJsonExists ''products'' (JArr []) fresh) = JArr []"
    by (simp add: ensure_fst loadJsonFromCloudinary_def fresh_def)
  have "delete_product (for_id ''1'') fresh =
          (Inr (not_found ''Product not found''),
           snd (ensureJsonExists ''products'' (JArr []) fresh))"
    by (rule delete_product_not_found [OF coll]) simp
  then show ?thesis
    by (simp add: ensure_snd loadJsonFromCloudinary_def saveJsonToCloudinary_def fresh_def
        writes_def settle_def)
qed

text \<open>
  C5, amended. When no product of the collection has the id of the path, PUT and DELETE
  /products/:id answer not found, and when no receipt has the order id of the path,
  DELETE /receipts/:orderId does. Where the document exists the account is left as it
  was, with no save; where it is missing (or falsy) the one write is that of \<open>ensure\<close>,
  which saves the empty collection before the lookup.
\<close>

theorem C5_unknown_id_not_found:
  "(fst (ensureJsonExists ''products'' (JArr []) c) = JArr ps
      \<and> (\<forall>p\<in>set ps. id_is (parseInt (to_string (params req ''id'')) None) p = Inr False)
    \<longrightarrow> put_product req c =
          (Inr (not_found ''Product not found''),
           if truthy (loadJsonFromCloudinary ''products'' c) then c
           else saveJsonToCloudinary ''products'' (JArr []) c)
        \<and> delete_product req c =
          (Inr (not_found ''Product not found''),
           if truthy (loadJsonFromCloudinary ''products'' c) then c
           else saveJsonToCloudinary ''products'' (JArr []) c))
   \<and> (fst (ensureJsonExists ''receipts'' (JArr []) c) = JArr rs
      \<and> (\<forall>r\<in>set rs. orderId_is (params req ''orderId'') r = Inr False)
    \<longrightarrow> delete_receipt req c =
          (Inr (not_found ''Receipt not found''),
           if truthy (loadJsonFromCloudinary ''receipts'' c) then c
           else saveJsonToCloudinary ''receipts'' (JArr []) c))"
  by (simp add: put_product_not_found delete_product_not_found delete_receipt_not_found
      ensure_snd)

theorem C5_unknown_id_not_found_witness:
  "fst (ensureJsonExists ''products'' (JArr []) stocked) = JArr [tea]
   \<and> id_is (parseInt (to_string (params (for_id ''999'') ''id'')) None) tea = Inr False
   \<and> fst (ensureJsonExists ''receipts'' (JArr []) stocked) = JArr [old_receipt]
   \<and> orderId_is (params (for_id ''999'') ''orderId'') old_receipt = Inr False
   \<and> truthy (loadJsonFromCloudinary ''products'' stocked)
   \<and> truthy (loadJsonFromCloudinary ''receipts'' stocked)
   \<and> put_product (for_id ''999'') stocked = (Inr (not_found ''Product not found''), stocked)
   \<and> delete_product (for_id ''999'') stocked = (Inr (not_found ''Product not found''), stocked)
   \<and> delete_receipt (for_id ''999'') stocked = (Inr (not_found ''Receipt not found''), stocked)"
proof -
  have products: "fst (ensureJsonExists ''products'' (JArr []) stocked) = JArr [tea]"
    by (simp add: ensure_fst loadJsonFromCloudinary_def stocked_def)
  have no_product:
    "id_is (parseInt (to_string (params (for_id ''999'') ''id'')) None) tea = Inr False"
    by (simp add: for_id_def request0_def to_string_def parseInt_999 id_is_def tea_def)
  have receipts: "fst (ensureJsonExists ''receipts'' (JArr []) stocked) = JArr [old_receipt]"
    by (simp add: ensure_fst loadJsonFromCloudinary_def stocked_def)
  have no_receipt: "orderId_is (params (for_id ''999'') ''orderId'') old_receipt = Inr False"
    by (simp add: for_id_def request0_def orderId_is_def old_receipt_def)
  have stored: "truthy (loadJsonFromCloudinary ''products'' stocked)"
    "truthy (loadJsonFromCloudinary ''receipts'' stocked)"
    by (simp_all add: loadJsonFromCloudinary_def stocked_def)
  from C5_unknown_id_not_found [of stocked "[tea]" "for_id ''999''" "[old_receipt]"]
  show ?thesis
    using products no_product receipts no_receipt stored by simp
qed

section \<open>Updating a product\<close>

lemma js_set_same: "js_set k (js_get x k) x = x"
proof (cases x)
  case (JObj kvs)
  show ?thesis
  proof (cases "map_of kvs k")
    case None
    then have "k \<notin> fst ` set kvs" by (simp add: map_of_eq_None_iff)
    then show ?thesis using JObj None by simp
  next
    case (Some v)
    then show ?thesis using JObj by (simp add: AList.update_triv)
  qed
qed simp_all

lemma js_get_set_object:
  "js_get (js_set k (Some v) (JObj kvs)) k' = (if k' = k then Some v else map_of kvs k')"
  by (simp add: AList.update_conv')

lemma update_fields_price_only:
  assumes "body req ''name'' = None" and "body req ''description'' = None"
      and "body req ''price'' = Some v"
  shows "update_fields req x = (if truthy v then js_set ''price'' (Some v) x else x)"
proof -
  have name: "js_set ''name'' (or_js (body req ''name'') (js_get x ''name'')) x = x"
    using assms(1) by (simp add: or_js_def js_set_same)
  have description:
    "js_set ''description'' (or_js (body req ''description'') (js_get y ''description'')) y = y"
    for y
    using assms(2) by (simp add: or_js_def js_set_same)
  have price:
    "js_set ''price'' (or_js (body req ''price'') (js_get x ''price'')) x
     = (if truthy v then js_set ''price'' (Some v) x else x)"
    using assms(3) by (simp add: or_js_def js_set_same)
  show ?thesis
    by (simp only: update_fields_def Let_def name price description)
qed

lemma found_product_is_object:
  assumes "findIndex (id_is n) ps = Inr (Some i)"
  shows "\<exists>kvs m. ps ! i = JObj kvs \<and> n = Some m \<and> map_of kvs ''id'' = Some (JNum (of_int m))"
  using findIndex_Some [OF assms] id_is_True by blast

lemma put_product_without_file:
  assumes coll: "fst (ensureJsonExists ''products'' (JArr []) c) = JArr ps"
      and found: "findIndex (id_is (parseInt (to_string (params req ''id'')) None)) ps
                    = Inr (Some i)"
      and no_file: "req_file req = None"
  shows "put_product req c =
           (Inr (Response 200
              (JObj [(''message'', JStr ''Product updated''),
                     (''product'', update_fields req (ps ! i))])),
            saveJsonToCloudinary ''products'' (JArr (ps[i := update_fields req (ps ! i)]))
              (snd (ensureJsonExists ''products'' (JArr []) c)))"
  by (simp add: put_product_def coll found no_file Let_def)

text \<open>
  C6, as the claim states it, fails for a price field that is the empty string: the
  request supplies price and nothing else, and the product keeps its price of 10, in
  the answer and in the document the handler uploads.
\<close>

theorem C6_empty_price_counterexample:
  "body ((for_id ''123'')\<lparr>body := [''price'' \<mapsto> JStr []]\<rparr>) ''price'' = Some (JStr [])
   \<and> fst (put_product ((for_id ''123'')\<lparr>body := [''price'' \<mapsto> JStr []]\<rparr>) stocked)
       = Inr (Response 200 (JObj [(''message'', JStr ''Product updated''), (''product'', tea)]))
   \<and> js_get tea ''price'' = Some (JStr ''10'')
   \<and> loadJsonFromCloudinary ''products''
         (settle (snd (put_product ((for_id ''123'')\<lparr>body := [''price'' \<mapsto> JStr []]\<rparr>) stocked)))
       = JArr [tea]"
proof -
  let ?r = "(for_id ''123'')\<lparr>body := [''price'' \<mapsto> JStr []]\<rparr>"
  have coll: "fst (ensureJsonExists ''products'' (JArr []) stocked) = JArr [tea]"
    by (simp add: ensure_fst loadJsonFromCloudinary_def stocked_def)
  have kept: "snd (ensureJsonExists ''products'' (JArr []) stocked) = stocked"
    by (simp add: ensure_snd loadJsonFromCloudinary_def stocked_def)
  have found: "findIndex (id_is (parseInt (to_string (params ?r ''id'')) None)) [tea]
                 = Inr (Some 0)"
    by (simp add: for_id_def request0_def to_string_def parseInt_123 id_is_def tea_def)
  have no_file: "req_file ?r = None"
    by (simp add: for_id_def request0_def)
  have fields: "update_fields ?r tea = tea"
    by (simp add: update_fields_price_only [where v = "JStr []"] for_id_def request0_def)
  have "put_product ?r stocked =
          (Inr (Response 200 (JObj [(''message'', JStr ''Product updated''), (''product'', tea)])),
           saveJsonToCloudinary ''products'' (JArr [tea]) stocked)"
    using put_product_without_file [OF coll found no_file] by (simp add: fields kept)
  then have answer: "fst (put_product ?r stocked)
      = Inr (Response 200 (JObj [(''message'', JStr ''Product updated''), (''product'', tea)]))"
    and saved: "loadJsonFromCloudinary ''products'' (settle (snd (put_product ?r stocked)))
                  = JArr [tea]"
    by (simp_all add: load_settle_save)
  have price: "js_get tea ''price'' = Some (JStr ''10'')"
    by (simp add: tea_def)
  show ?thesis
    using answer saved price by simp
qed

text \<open>
  C6, amended. For the product a PUT /products/:id finds, a request that supplies only
  a price (no name, no description, no file) is answered with the product and saves the
  collection with it in place. A price that is truthy becomes the product's price, as it
  is; with a falsy price (the empty string, or the 0, false or null of a JSON body) the
  product is saved as it was. Name, description, imageUrl and cloudinaryId are unchanged
  either way.
\<close>

theorem C6_price_only_update:
  assumes coll: "fst (ensureJsonExists ''products'' (JArr []) c) = JArr ps"
      and found: "findIndex (id_is (parseInt (to_string (params req ''id'')) None)) ps
                    = Inr (Some i)"
      and no_name: "body req ''name'' = None"
      and no_description: "body req ''description'' = None"
      and no_file: "req_file req = None"
      and price: "body req ''price'' = Some v"
  shows "put_product req c =
           (Inr (Response 200
              (JObj [(''message'', JStr ''Product updated''),
                     (''product'', update_fields req (ps ! i))])),
            saveJsonToCloudinary ''products'' (JArr (ps[i := update_fields req (ps ! i)]))
              (snd (ensureJsonExists ''products'' (JArr []) c)))
         \<and> update_fields req (ps ! i)
             = (if truthy v then js_set ''price'' (Some v) (ps ! i) else ps ! i)
         \<and> js_get (update_fields req (ps ! i)) ''price''
             = (if truthy v then Some v else js_get (ps ! i) ''price'')
         \<and> js_get (update_fields req (ps ! i)) ''name'' = js_get (ps ! i) ''name''
         \<and> js_get (update_fields req (ps ! i)) ''description'' = js_get (ps ! i) ''description''
         \<and> js_get (update_fields req (ps ! i)) ''imageUrl'' = js_get (ps ! i) ''imageUrl''
         \<and> js_get (update_fields req (ps ! i)) ''cloudinaryId'' = js_get (ps ! i) ''cloudinaryId''"
proof -
  obtain kvs where obj: "ps ! i = JObj kvs"
    using found_product_is_object [OF found] by blast
  have fields: "update_fields req (ps ! i)
                  = (if truthy v then js_set ''price'' (Some v) (ps ! i) else ps ! i)"
    using no_name no_description price by (rule update_fields_price_only)
  have answer: "put_product req c =
           (Inr (Response 200
              (JObj [(''message'', JStr ''Product updated''),
                     (''product'', update_fields req (ps ! i))])),
            saveJsonToCloudinary ''products'' (JArr (ps[i := update_fields req (ps ! i)]))
              (snd (ensureJsonExists ''products'' (JArr []) c)))"
    using coll found no_file by (rule put_product_without_file)
  have frame: "js_get (update_fields req (ps ! i)) k = js_get (ps ! i) k"
    if "k \<noteq> ''price''" for k
    using that by (simp only: fields) (simp add: obj js_get_set_object del: js_set.simps)
  have new_price: "js_get (update_fields req (ps ! i)) ''price''
                     = (if truthy v then Some v else js_get (ps ! i) ''price'')"
    by (simp only: fields) (simp add: obj js_get_set_object del: js_set.simps)
  show ?thesis
    using answer fields new_price
      frame [of "''name''"] frame [of "''description''"] frame [of "''imageUrl''"]
      frame [of "''cloudinaryId''"]
    by simp
qed

theorem C6_price_only_update_witness:
  "fst (ensureJsonExists ''products'' (JArr []) stocked) = JArr [tea]
   \<and> findIndex (id_is (parseInt (to_string
         (params ((for_id ''123'')\<lparr>body := [''price'' \<mapsto> JStr ''12'']\<rparr>) ''id'')) None)) [tea]
       = Inr (Some 0)
   \<and> body ((for_id ''123'')\<lparr>body := [''price'' \<mapsto> JStr ''12'']\<rparr>) ''name'' = None
   \<and> body ((for_id ''123'')\<lparr>body := [''price'' \<mapsto> JStr ''12'']\<rparr>) ''description'' = None
   \<and> req_file ((for_id ''123'')\<lparr>body := [''price'' \<mapsto> JStr ''12'']\<rparr>) = None
   \<and> body ((for_id ''123'')\<lparr>body := [''price'' \<mapsto> JStr ''12'']\<rparr>) ''price'' = Some (JStr ''12'')
   \<and> truthy (JStr ''12'')
   \<and> update_fields ((for_id ''123'')\<lparr>body := [''price'' \<mapsto> JStr ''12'']\<rparr>) tea
       = JObj [(''id'', JNum 123),
               (''name'', JStr ''Tea''),
               (''price'', JStr ''12''),
               (''description'', JStr ''green''),
               (''imageUrl'', JStr ''https://res.cloudinary.com/bstore_products/1699999999999.jpg''),
               (''cloudinaryId'', JStr ''bstore_products/1699999999999'')]"
proof -
  let ?r = "(for_id ''123'')\<lparr>body := [''price'' \<mapsto> JStr ''12'']\<rparr>"
  have coll: "fst (ensureJsonExists ''products'' (JArr []) stocked) = JArr [tea]"
    by (simp add: ensure_fst loadJsonFromCloudinary_def stocked_def)
  have found: "findIndex (id_is (parseInt (to_string (params ?r ''id'')) None)) [tea]
                 = Inr (Some 0)"
    by (simp add: for_id_def request0_def to_string_def parseInt_123 id_is_def tea_def)
  have no_name: "body ?r ''name'' = None" by simp
  have no_description: "body ?r ''description'' = None" by simp
  have no_file: "req_file ?r = None" by (simp add: for_id_def request0_def)
  have price: "body ?r ''price'' = Some (JStr ''12'')" by simp
  from C6_price_only_update [OF coll found no_name no_description no_file price]
  have "update_fields ?r ([tea] ! 0) = js_set ''price'' (Some (JStr ''12'')) ([tea] ! 0)"
    by simp
  then have "update_fields ?r tea
       = JObj [(''id'', JNum 123),
               (''name'', JStr ''Tea''),
               (''price'', JStr ''12''),
               (''description'', JStr ''green''),
               (''imageUrl'', JStr ''https://res.cloudinary.com/bstore_products/1699999999999.jpg''),
               (''cloudinaryId'', JStr ''bstore_products/1699999999999'')]"
    by (simp add: tea_def)
  then show ?thesis
    using coll found no_name no_description no_file price by simp
qed

section \<open>Deleting a product\<close>

text \<open>What the cloud program's handler does once it has found the product.\<close>

lemma delete_product_found:
  assumes coll: "fst (ensureJsonExists ''products'' (JArr []) c) = JArr ps"
      and found: "findIndex (id_is (parseInt (to_string (params req ''id'')) None)) ps
                    = Inr (Some i)"
  shows "delete_product req c =
           (let e = snd (ensureJsonExists ''products'' (JArr []) c);
                deleted = (Inr (Response 200 (message ''Product deleted'')),
                           saveJsonToCloudinary ''products'' (JArr (splice1 i ps)) e);
                called = (\<lambda>v. e\<lparr>calls := calls e @ [Destroy v]\<rparr>)
            in case js_get (ps ! i) ''cloudinaryId'' of
                 None \<Rightarrow> deleted
               | Some v \<Rightarrow>
                   if \<not> truthy v then deleted
                   else if destroy_rejects e v then (Inl ProviderError, called v)
                   else (Inr (Response 200 (message ''Product deleted'')),
                         saveJsonToCloudinary ''products'' (JArr (splice1 i ps)) (called v)))"
  by (simp add: delete_product_def coll found Let_def destroy_def split: option.splits)

lemma rejects_after_ensure:
  "destroy_rejects (snd (ensureJsonExists n d c)) = destroy_rejects c"
  by (simp add: ensure_snd saveJsonToCloudinary_def)

text \<open>
  Whenever the found product has a truthy cloudinaryId and the provider rejects its
  delete, the handler's promise rejects: no response is sent and nothing is saved.
\<close>

lemma delete_product_rejected:
  assumes coll: "fst (ensureJsonExists ''products'' (JArr []) c) = JArr ps"
      and found: "findIndex (id_is (parseInt (to_string (params req ''id'')) None)) ps
                    = Inr (Some i)"
      and asset: "js_get (ps ! i) ''cloudinaryId'' = Some v" "truthy v"
      and rejects: "destroy_rejects c v"
  shows "fst (delete_product req c) = Inl ProviderError"
    and "raw_objects (snd (delete_product req c))
           = raw_objects (snd (ensureJsonExists ''products'' (JArr []) c))"
    and "in_flight (snd (delete_product req c))
           = in_flight (snd (ensureJsonExists ''products'' (JArr []) c))"
    and "writes (snd (delete_product req c))
           = writes (snd (ensureJsonExists ''products'' (JArr []) c))"
  using asset rejects
  by (simp_all add: delete_product_found [OF coll found] Let_def rejects_after_ensure
      writes_def)

text \<open>
  Whenever the provider does not reject, the handler answers with success and uploads
  the collection without the product it found, the others as they were and in their
  order; that is the document of the account when the upload has landed.
\<close>

lemma delete_product_removes_first_match:
  assumes coll: "fst (ensureJsonExists ''products'' (JArr []) c) = JArr ps"
      and found: "findIndex (id_is (parseInt (to_string (params req ''id'')) None)) ps
                    = Inr (Some i)"
      and accepted: "\<And>v. js_get (ps ! i) ''cloudinaryId'' = Some v \<Longrightarrow> truthy v
                       \<Longrightarrow> \<not> destroy_rejects c v"
  shows "fst (delete_product req c) = Inr (Response 200 (message ''Product deleted''))"
    and "last (calls (snd (delete_product req c)))
           = Upload ''bstore_data/products'' (JArr (take i ps @ drop (Suc i) ps))"
    and "loadJsonFromCloudinary ''products'' (settle (snd (delete_product req c)))
           = JArr (take i ps @ drop (Suc i) ps)"
proof -
  have "\<exists>e. delete_product req c =
          (Inr (Response 200 (message ''Product deleted'')),
           saveJsonToCloudinary ''products'' (JArr (splice1 i ps)) e)"
    using accepted
    by (auto simp add: delete_product_found [OF coll found] Let_def rejects_after_ensure
        split: option.splits)
  then obtain e where deleted: "delete_product req c =
          (Inr (Response 200 (message ''Product deleted'')),
           saveJsonToCloudinary ''products'' (JArr (splice1 i ps)) e)"
    by blast
  show "fst (delete_product req c) = Inr (Response 200 (message ''Product deleted''))"
    by (simp add: deleted)
  show "last (calls (snd (delete_product req c)))
           = Upload ''bstore_data/products'' (JArr (take i ps @ drop (Suc i) ps))"
    by (simp add: deleted saveJsonToCloudinary_def splice1_def)
  show "loadJsonFromCloudinary ''products'' (settle (snd (delete_product req c)))
           = JArr (take i ps @ drop (Suc i) ps)"
    by (simp add: deleted load_settle_save splice1_def)
qed


text \<open>
  The disk program's handler, once it has found a product whose cloudinaryId is a string:
  whatever the provider's delete does, the answer is success and the product is removed;
  the id passed to the provider is the stored one cut and prefixed by \<open>public_id\<close>.
\<close>

lemma delete_product_disk_found:
  assumes stored: "products_json d = Some (JArr ps)"
      and found: "findIndex (id_is (parseInt (to_string (params req ''id'')) (Some 10))) ps
                    = Inr (Some i)"
      and asset: "js_get (ps ! i) ''cloudinaryId'' = Some (JStr s)"
  shows "delete_product_disk req d =
           (Inr (Response 200 (message ''Product deleted'')),
            d\<lparr>destroy_calls := destroy_calls d @ [JStr (public_id s)],
              products_json := Some (JArr (splice1 i ps))\<rparr>)"
  by (cases "destroy_throws d (JStr (public_id s))")
     (simp_all add: delete_product_disk_def stored found asset Let_def destroy_disk_def)



lemma parseInt_456: "parseInt ''456'' None = Some 456"
  by (simp add: parseInt_def is_space_def digit_value_def digits_value_def to_double_def Let_def)

lemma parseInt_123_radix_10: "parseInt ''123'' (Some 10) = Some 123"
  by (simp add: parseInt_def is_space_def digit_value_def digits_value_def to_double_def Let_def)

lemma shelf_products:
  "fst (ensureJsonExists ''products'' (JArr []) shelf) = JArr [coffee, tea, iced_tea]"
  "snd (ensureJsonExists ''products'' (JArr []) shelf) = shelf"
  "fst (ensureJsonExists ''products'' (JArr []) failing_shelf) = JArr [coffee, tea, iced_tea]"
  "snd (ensureJsonExists ''products'' (JArr []) failing_shelf) = failing_shelf"
  by (simp_all add: ensure_fst ensure_snd loadJsonFromCloudinary_def shelf_def failing_shelf_def)

lemma stocked_products:
  "fst (ensureJsonExists ''products'' (JArr []) stocked) = JArr [tea]"
  "snd (ensureJsonExists ''products'' (JArr []) stocked) = stocked"
  "fst (ensureJsonExists ''products'' (JArr []) failing) = JArr [tea]"
  "snd (ensureJsonExists ''products'' (JArr []) failing) = failing"
  by (simp_all add: ensure_fst ensure_snd loadJsonFromCloudinary_def stocked_def failing_def)

lemma find_on_shelf:
  "findIndex (id_is (parseInt (to_string (params (for_id ''123'') ''id'')) None))
     [coffee, tea, iced_tea] = Inr (Some 1)"
  "findIndex (id_is (parseInt (to_string (params (for_id ''456'') ''id'')) None))
     [coffee, tea, iced_tea] = Inr (Some 0)"
  by (simp_all add: for_id_def request0_def to_string_def parseInt_123 parseInt_456 id_is_def
      tea_def coffee_def iced_tea_def)

lemma find_tea:
  "findIndex (id_is (parseInt (to_string (params (for_id ''123'') ''id'')) None)) [tea]
     = Inr (Some 0)"
  "findIndex (id_is (parseInt (to_string (params (for_id ''123'') ''id'')) (Some 10))) [tea]
     = Inr (Some 0)"
  by (simp_all add: for_id_def request0_def to_string_def parseInt_123 parseInt_123_radix_10
      id_is_def tea_def)

text \<open>
  C1. The cloud program does not do what the claim says. With \<open>tea\<close> stored and a
  provider that fails the delete of its image, DELETE /products/123 ends in the
  provider's error: no success message is sent, the product is still stored and nothing
  was saved. The disk program, on the same product and the same failure, answers with
  success and removes the product.
\<close>

theorem C1_blob_failure_fails_the_delete:
  "fst (delete_product (for_id ''123'') failing) = Inl ProviderError
   \<and> loadJsonFromCloudinary ''products'' (snd (delete_product (for_id ''123'') failing))
       = JArr [tea]
   \<and> writes (snd (delete_product (for_id ''123'') failing)) = 0
   \<and> fst (delete_product_disk (for_id ''123'') failing_disk)
       = Inr (Response 200 (message ''Product deleted''))
   \<and> products_json (snd (delete_product_disk (for_id ''123'') failing_disk)) = Some (JArr [])"
proof -
  have asset: "js_get ([tea] ! 0) ''cloudinaryId'' = Some (JStr ''bstore_products/1699999999999'')"
    by (simp add: tea_def)
  have rejects: "destroy_rejects failing (JStr ''bstore_products/1699999999999'')"
    by (simp add: failing_def)
  have cloud:
    "fst (delete_product (for_id ''123'') failing) = Inl ProviderError"
    "raw_objects (snd (delete_product (for_id ''123'') failing)) = raw_objects failing"
    "writes (snd (delete_product (for_id ''123'') failing)) = writes failing"
    using delete_product_rejected [OF stocked_products(3) find_tea(1) asset _ rejects]
    by (simp_all add: stocked_products)
  have stored: "products_json failing_disk = Some (JArr [tea])"
    by (simp add: failing_disk_def)
  have disk: "delete_product_disk (for_id ''123'') failing_disk =
           (Inr (Response 200 (message ''Product deleted'')),
            failing_disk\<lparr>destroy_calls := destroy_calls failing_disk
                            @ [JStr (public_id ''bstore_products/1699999999999'')],
              products_json := Some (JArr (splice1 0 [tea]))\<rparr>)"
    using stored find_tea(2) asset by (rule delete_product_disk_found)
  show ?thesis
    using cloud
    by (simp add: disk splice1_def loadJsonFromCloudinary_def failing_def stocked_def writes_def)
qed

text \<open>
  C10. The cloud program removes the first product with the id, and only it, when the
  provider accepts the delete of its image: from coffee, tea and iced tea (which has
  tea's id), DELETE /products/123 uploads coffee and iced tea, the document of the
  account once the upload has landed. When the provider fails that delete the handler
  stops before the removal, and all three are still stored, then and later.
\<close>

theorem C10_first_match_not_removed_when_blob_delete_fails:
  "loadJsonFromCloudinary ''products'' (settle (snd (delete_product (for_id ''123'') shelf)))
     = JArr [coffee, iced_tea]
   \<and> fst (delete_product (for_id ''123'') failing_shelf) = Inl ProviderError
   \<and> loadJsonFromCloudinary ''products'' (snd (delete_product (for_id ''123'') failing_shelf))
       = JArr [coffee, tea, iced_tea]
   \<and> loadJsonFromCloudinary ''products''
        (settle (snd (delete_product (for_id ''123'') failing_shelf)))
       = JArr [coffee, tea, iced_tea]"
proof -
  have asset: "js_get ([coffee, tea, iced_tea] ! 1) ''cloudinaryId''
                 = Some (JStr ''bstore_products/1699999999999'')"
    by (simp add: tea_def)
  have accepted: "\<not> destroy_rejects shelf v" for v
    by (simp add: shelf_def)
  have removed:
    "loadJsonFromCloudinary ''products'' (settle (snd (delete_product (for_id ''123'') shelf)))
       = JArr [coffee, iced_tea]"
    using delete_product_removes_first_match(3) [OF shelf_products(1) find_on_shelf(1) accepted]
    by simp
  have rejects: "destroy_rejects failing_shelf (JStr ''bstore_products/1699999999999'')"
    by (simp add: failing_shelf_def)
  have kept:
    "fst (delete_product (for_id ''123'') failing_shelf) = Inl ProviderError"
    "raw_objects (snd (delete_product (for_id ''123'') failing_shelf))
       = raw_objects failing_shelf"
    "in_flight (snd (delete_product (for_id ''123'') failing_shelf)) = []"
    using delete_product_rejected [OF shelf_products(3) find_on_shelf(1) asset _ rejects]
    by (simp_all add: shelf_products) (simp add: failing_shelf_def shelf_def)
  have quiet: "settle (snd (delete_product (for_id ''123'') failing_shelf))
                 = snd (delete_product (for_id ''123'') failing_shelf)"
    using kept(3) by (rule settle_quiet)
  have still: "loadJsonFromCloudinary ''products''
                 (snd (delete_product (for_id ''123'') failing_shelf))
               = JArr [coffee, tea, iced_tea]"
    using kept(2) by (simp add: loadJsonFromCloudinary_def failing_shelf_def shelf_def)
  have later: "loadJsonFromCloudinary ''products''
                 (settle (snd (delete_product (for_id ''123'') failing_shelf)))
               = JArr [coffee, tea, iced_tea]"
    using still by (simp only: quiet)
  show ?thesis
    using removed kept(1) still later by simp
qed

section \<open>The id passed to the provider\<close>




lemma decimal_digits: "set (decimal n) \<subseteq> set ''0123456789''"
proof (induction n rule: decimal.induct)
  case (1 n)
  have digit: "''0123456789'' ! k \<in> set ''0123456789''" if "k < 10" for k
    using that nth_mem [of k "''0123456789''"] by simp
  show ?case
  proof (cases "n < 10")
    case True
    then show ?thesis
      using digit [of n] by (subst decimal.simps) simp
  next
    case False
    have "n mod 10 < 10" by simp
    then have last: "''0123456789'' ! (n mod 10) \<in> set ''0123456789''"
      by (rule digit)
    show ?thesis
      using False "1.IH" last by (subst decimal.simps) simp
  qed
qed

lemma image_id_stored: "stored_id (image_id now)"
proof -
  have "CHR ''.'' \<notin> set (decimal k)" for k
    using decimal_digits [of k] by auto
  then show ?thesis
    by (simp add: stored_id_def image_id_def number_to_string_def)
qed



section \<open>What the handlers keep true of the documents\<close>

text \<open>
  The theorems on the handlers take the document a handler works on to be a collection,
  and the theorem on the id passed to the provider takes the stored id to be one that
  multer stored. Both hold of a fresh account. They are kept by every handler (the ids,
  on requests whose file multer stored) and by whatever becomes of the uploads in
  flight, so they hold in every state that the handlers reach.
\<close>

lemma documents_save:
  "documents n (saveJsonToCloudinary m v c)
   = (if n = m then documents n c @ [v] else documents n c)"
  by (simp add: documents_def saveJsonToCloudinary_def)

lemma documents_calls: "documents n (c\<lparr>calls := k\<rparr>) = documents n c"
  by (simp add: documents_def)

lemma documents_ensure:
  "set (documents n (snd (ensureJsonExists m d c)))
   \<subseteq> set (documents n c) \<union> (if n = m then {d} else {})"
  by (auto simp add: ensure_snd documents_save)

lemma loaded_document:
  "loadJsonFromCloudinary n c = JNull \<or> loadJsonFromCloudinary n c \<in> set (documents n c)"
  by (simp add: loadJsonFromCloudinary_def documents_def split: option.splits)

lemma ensured_document:
  "fst (ensureJsonExists n d c) = d \<or> fst (ensureJsonExists n d c) \<in> set (documents n c)"
  using loaded_document [of n c] by (auto simp add: ensure_fst)

lemma landed_objects:
  "foldl (\<lambda>m kv. m(fst kv \<mapsto> snd kv)) objs xs k = Some v \<Longrightarrow>
   objs k = Some v \<or> (k, v) \<in> set xs"
proof (induction xs arbitrary: objs)
  case Nil
  then show ?case by simp
next
  case (Cons kv xs)
  from Cons.prems
  have "foldl (\<lambda>m kv. m(fst kv \<mapsto> snd kv)) (objs(fst kv \<mapsto> snd kv)) xs k = Some v"
    by (simp only: foldl_Cons)
  from Cons.IH [OF this] show ?case
    by (cases kv) (auto split: if_splits)
qed

lemma documents_settle: "set (documents n (settle c)) \<subseteq> set (documents n c)"
proof
  fix v assume "v \<in> set (documents n (settle c))"
  then have "foldl (\<lambda>m kv. m(fst kv \<mapsto> snd kv)) (raw_objects c) (in_flight c)
               (''bstore_data/'' @ n) = Some v"
    by (auto simp add: documents_def settle_def split: option.splits)
  from landed_objects [OF this] show "v \<in> set (documents n c)"
    by (force simp add: documents_def)
qed

lemma documents_land: "set (documents n (land c)) \<subseteq> set (documents n c)"
  by (cases "in_flight c") (auto simp add: documents_def land_def split: option.splits if_splits)

lemma documents_lose: "set (documents n (lose c)) \<subseteq> set (documents n c)"
  by (cases "in_flight c") (auto simp add: documents_def lose_def split: option.splits)

lemma all_documents:
  "list_all P (documents n c) \<longleftrightarrow> (\<forall>v\<in>set (documents n c). P v)"
  by (simp add: list_all_iff)

lemma fresh_documents: "documents n fresh = []"
  by (simp add: documents_def fresh_def)

subsection \<open>Collections\<close>

lemma fresh_collection: "collection n fresh"
  by (simp add: collection_def fresh_documents)

lemma collection_ensured:
  assumes "collection n c"
  shows "\<exists>xs. fst (ensureJsonExists n (JArr []) c) = JArr xs"
proof -
  from ensured_document [of n "JArr []" c] show ?thesis
  proof
    assume "fst (ensureJsonExists n (JArr []) c) = JArr []"
    then show ?thesis by blast
  next
    assume "fst (ensureJsonExists n (JArr []) c) \<in> set (documents n c)"
    then have "is_array (fst (ensureJsonExists n (JArr []) c))"
      using assms by (simp add: collection_def all_documents)
    then show ?thesis
      by (cases "fst (ensureJsonExists n (JArr []) c)") simp_all
  qed
qed

lemma collection_settle: "collection n c \<Longrightarrow> collection n (settle c)"
  using documents_settle [of n c] by (auto simp add: collection_def all_documents)

lemma collection_land: "collection n c \<Longrightarrow> collection n (land c)"
  using documents_land [of n c] by (auto simp add: collection_def all_documents)

lemma collection_lose: "collection n c \<Longrightarrow> collection n (lose c)"
  using documents_lose [of n c] by (auto simp add: collection_def all_documents)

lemma collection_ensure:
  "collection n c \<Longrightarrow> collection n (snd (ensureJsonExists m (JArr []) c))"
  using documents_ensure [of n m "JArr []" c]
  by (auto simp add: collection_def all_documents split: if_splits)

lemma collection_save:
  "collection n c \<Longrightarrow> collection n (saveJsonToCloudinary m (JArr xs) c)"
  by (auto simp add: collection_def documents_save)

lemma collection_calls: "collection n (c\<lparr>calls := k\<rparr>) = collection n c"
  by (simp add: collection_def documents_calls)

lemma post_upload_keeps_collection:
  "collection n c \<Longrightarrow> collection n (snd (post_upload P req c))"
  by (auto simp add: post_upload_def Let_def collection_ensure collection_save
      split: sum.splits json.splits)

lemma get_receipts_keeps_collection:
  "collection n c \<Longrightarrow> collection n (snd (get_receipts c))"
  by (simp add: get_receipts_def Let_def collection_ensure)

lemma delete_receipt_keeps_collection:
  "collection n c \<Longrightarrow> collection n (snd (delete_receipt req c))"
  by (auto simp add: delete_receipt_def Let_def collection_ensure collection_save
      split: sum.splits json.splits option.splits)

lemma get_products_keeps_collection:
  "collection n c \<Longrightarrow> collection n (snd (get_products c))"
  by (simp add: get_products_def Let_def collection_ensure)

lemma post_product_keeps_collection:
  "collection n c \<Longrightarrow> collection n (snd (post_product req c))"
  by (auto simp add: post_product_def Let_def collection_ensure collection_save
      split: sum.splits json.splits option.splits)

lemma replace_image_keeps_collection:
  "collection n c \<Longrightarrow> collection n (snd (replace_image f p c))"
  by (auto simp add: replace_image_def Let_def destroy_def collection_calls
      split: sum.splits option.splits)

lemma put_product_keeps_collection:
  "collection n c \<Longrightarrow> collection n (snd (put_product req c))"
  by (auto simp add: put_product_def Let_def collection_ensure collection_save
      replace_image_keeps_collection
      split: sum.splits json.splits option.splits)

lemma delete_product_keeps_collection:
  "collection n c \<Longrightarrow> collection n (snd (delete_product req c))"
  by (auto simp add: delete_product_def Let_def collection_ensure collection_save
      destroy_def collection_calls
      split: sum.splits json.splits option.splits)

subsection \<open>The ids of the stored products\<close>

lemma fresh_products_stored: "products_stored fresh"
  by (simp add: products_stored_def fresh_documents)

lemma products_stored_ensured:
  assumes "products_stored c" and "fst (ensureJsonExists ''products'' (JArr []) c) = JArr qs"
  shows "list_all has_stored_id qs"
proof -
  from ensured_document [of "''products''" "JArr []" c] show ?thesis
  proof
    assume "fst (ensureJsonExists ''products'' (JArr []) c) = JArr []"
    then show ?thesis using assms(2) by simp
  next
    assume "fst (ensureJsonExists ''products'' (JArr []) c) \<in> set (documents ''products'' c)"
    then have "JArr qs \<in> set (documents ''products'' c)"
      using assms(2) by simp
    then have "products_document (JArr qs)"
      using assms(1) by (auto simp add: products_stored_def all_documents)
    then show ?thesis by simp
  qed
qed

lemma products_stored_found:
  assumes "products_stored c" and "fst (ensureJsonExists ''products'' (JArr []) c) = JArr qs"
      and "j < length qs"
  shows "\<exists>t. js_get (qs ! j) ''cloudinaryId'' = Some (JStr t) \<and> stored_id t"
proof -
  have "has_stored_id (qs ! j)"
    using products_stored_ensured [OF assms(1,2)] assms(3) by (simp add: list_all_length)
  then show ?thesis
    by (auto simp add: has_stored_id_def split: option.splits json.splits)
qed

lemma products_stored_settle: "products_stored c \<Longrightarrow> products_stored (settle c)"
  using documents_settle [of "''products''" c] by (auto simp add: products_stored_def all_documents)

lemma products_stored_land: "products_stored c \<Longrightarrow> products_stored (land c)"
  using documents_land [of "''products''" c] by (auto simp add: products_stored_def all_documents)

lemma products_stored_lose: "products_stored c \<Longrightarrow> products_stored (lose c)"
  using documents_lose [of "''products''" c] by (auto simp add: products_stored_def all_documents)

lemma products_stored_ensure:
  "products_stored c \<Longrightarrow> products_stored (snd (ensureJsonExists m (JArr []) c))"
  using documents_ensure [of "''products''" m "JArr []" c]
  by (auto simp add: products_stored_def all_documents split: if_splits)

lemma products_stored_save_products:
  "products_stored c \<Longrightarrow> list_all has_stored_id xs \<Longrightarrow>
   products_stored (saveJsonToCloudinary ''products'' (JArr xs) c)"
  by (simp add: products_stored_def documents_save)

lemma products_stored_save_receipts:
  "products_stored c \<Longrightarrow> products_stored (saveJsonToCloudinary ''receipts'' v c)"
  by (simp add: products_stored_def documents_save)

lemma products_stored_calls: "products_stored (c\<lparr>calls := k\<rparr>) = products_stored c"
  by (simp add: products_stored_def documents_calls)

lemma js_get_set_other: "k' \<noteq> k \<Longrightarrow> js_get (js_set k v x) k' = js_get x k'"
  by (cases x; cases v) (simp_all add: AList.update_conv')

lemma update_fields_keeps_asset:
  "js_get (update_fields req p) ''cloudinaryId'' = js_get p ''cloudinaryId''"
  by (simp add: update_fields_def Let_def js_get_set_other)

lemma has_stored_id_update_fields: "has_stored_id (update_fields req p) = has_stored_id p"
  by (simp add: has_stored_id_def update_fields_keeps_asset)

lemma replace_image_stored:
  assumes "stored_id (filename f)" and "has_stored_id p"
      and "fst (replace_image f p c) = Inr p'"
  shows "has_stored_id p'"
proof -
  obtain kvs where obj: "p = JObj kvs"
    using assms(2) by (cases p) (simp_all add: has_stored_id_def)
  have "p' = js_set ''cloudinaryId'' (Some (JStr (filename f)))
               (js_set ''imageUrl'' (Some (JStr (path f))) p)"
    using assms(3) by (auto simp add: replace_image_def Let_def split: sum.splits)
  then show ?thesis
    using assms(1) by (simp add: obj has_stored_id_def AList.update_conv')
qed

lemma replace_image_keeps_products_stored:
  "products_stored c \<Longrightarrow> products_stored (snd (replace_image f p c))"
  by (auto simp add: replace_image_def Let_def destroy_def products_stored_calls
      split: sum.splits option.splits)

lemma post_upload_keeps_products_stored:
  "products_stored c \<Longrightarrow> products_stored (snd (post_upload P req c))"
  by (auto simp add: post_upload_def Let_def products_stored_ensure
      products_stored_save_receipts split: sum.splits json.splits)

lemma get_receipts_keeps_products_stored:
  "products_stored c \<Longrightarrow> products_stored (snd (get_receipts c))"
  by (simp add: get_receipts_def Let_def products_stored_ensure)

lemma delete_receipt_keeps_products_stored:
  "products_stored c \<Longrightarrow> products_stored (snd (delete_receipt req c))"
  by (auto simp add: delete_receipt_def Let_def products_stored_ensure
      products_stored_save_receipts split: sum.splits json.splits option.splits)

lemma get_products_keeps_products_stored:
  "products_stored c \<Longrightarrow> products_stored (snd (get_products c))"
  by (simp add: get_products_def Let_def products_stored_ensure)

lemma post_product_keeps_products_stored:
  assumes stored: "products_stored c" and upload: "from_multer req"
  shows "products_stored (snd (post_product req c))"
proof (cases "req_file req")
  case None
  then show ?thesis using stored by (simp add: post_product_def)
next
  case (Some f)
  have id: "stored_id (filename f)"
    using upload Some by (simp add: from_multer_def)
  let ?new = "object_literal
                 [(''id'', Some (JNum (of_int (date_now req)))),
                  (''name'', body req ''name''),
                  (''price'', body req ''price''),
                  (''description'', body req ''description''),
                  (''imageUrl'', Some (JStr (path f))),
                  (''cloudinaryId'', Some (JStr (filename f)))]"
  have new: "has_stored_id ?new"
    using id
    by (simp add: has_stored_id_def object_literal_def split: option.splits)
  show ?thesis
  proof (cases "fst (ensureJsonExists ''products'' (JArr []) c)")
    case (JArr qs)
    have "list_all has_stored_id (qs @ [?new])"
      using products_stored_ensured [OF stored JArr] new by simp
    then show ?thesis
      using stored
      by (simp add: post_product_def Some Let_def JArr products_stored_ensure
          products_stored_save_products)
  qed (use stored in \<open>simp_all add: post_product_def Some Let_def products_stored_ensure\<close>)
qed

lemma put_product_keeps_products_stored:
  assumes stored: "products_stored c" and upload: "from_multer req"
  shows "products_stored (snd (put_product req c))"
proof (cases "fst (ensureJsonExists ''products'' (JArr []) c)")
  case (JArr qs)
  let ?e = "snd (ensureJsonExists ''products'' (JArr []) c)"
  have all: "list_all has_stored_id qs"
    using stored JArr by (rule products_stored_ensured)
  have e: "products_stored ?e"
    using stored by (rule products_stored_ensure)
  show ?thesis
  proof (cases "findIndex (id_is (parseInt (to_string (params req ''id'')) None)) qs")
    case (Inl err)
    then show ?thesis using e by (simp add: put_product_def JArr Let_def)
  next
    case (Inr found)
    show ?thesis
    proof (cases found)
      case None
      then show ?thesis using e Inr by (simp add: put_product_def JArr Let_def)
    next
      case (Some i)
      have i: "i < length qs"
        using findIndex_Some [of _ qs i] Inr Some by simp
      then have old: "has_stored_id (qs ! i)"
        using all by (simp add: list_all_length)
      have put: "products_stored
                   (saveJsonToCloudinary ''products'' (JArr (qs[i := update_fields req p])) c')"
        if "products_stored c'" and "has_stored_id p" for p c'
      proof -
        have "list_all has_stored_id (qs[i := update_fields req p])"
          using all that(2) set_update_subset_insert [of qs i "update_fields req p"]
          by (auto simp add: list_all_iff has_stored_id_update_fields)
        then show ?thesis
          using that(1) by (simp add: products_stored_save_products)
      qed
      show ?thesis
      proof (cases "req_file req")
        case None
        then show ?thesis
          using put [OF e old] by (simp add: put_product_def JArr Inr Some Let_def)
      next
        case (Some f)
        have id: "stored_id (filename f)"
          using upload Some by (simp add: from_multer_def)
        have e': "products_stored (snd (replace_image f (qs ! i) ?e))"
          using e by (rule replace_image_keeps_products_stored)
        show ?thesis
        proof (cases "fst (replace_image f (qs ! i) ?e)")
          case (Inl err)
          then show ?thesis
            using e' by (simp add: put_product_def JArr Inr \<open>found = Some i\<close> Some Let_def)
        next
          case (Inr p')
          have "has_stored_id p'"
            using id old Inr by (rule replace_image_stored)
          from put [OF e' this] show ?thesis
            by (simp add: put_product_def JArr \<open>findIndex _ qs = Inr found\<close>
                \<open>found = Some i\<close> Some Inr Let_def)
        qed
      qed
    qed
  qed
qed (use stored in \<open>simp_all add: put_product_def Let_def products_stored_ensure\<close>)

lemma delete_product_keeps_products_stored:
  assumes stored: "products_stored c"
  shows "products_stored (snd (delete_product req c))"
proof (cases "fst (ensureJsonExists ''products'' (JArr []) c)")
  case (JArr qs)
  have all: "list_all has_stored_id qs"
    using stored JArr by (rule products_stored_ensured)
  have e: "products_stored (snd (ensureJsonExists ''products'' (JArr []) c))"
    using stored by (rule products_stored_ensure)
  have rest: "list_all has_stored_id (splice1 i qs)" for i
    using all set_take_subset [of i qs] set_drop_subset [of "Suc i" qs]
    by (auto simp add: splice1_def list_all_iff)
  show ?thesis
    using e rest
    by (auto simp add: delete_product_def JArr Let_def destroy_def products_stored_calls
        products_stored_save_products split: sum.splits option.splits)
qed (use stored in \<open>simp_all add: delete_product_def Let_def products_stored_ensure\<close>)

section \<open>Resolving the path id\<close>





























end
